theory Spec2Isabelle
  imports Complex_Main "HOL-Library.AList"
begin

section \<open>The services of the hahm integration (custom_components/hahm/services.py)\<close>

text \<open>
  The module registers six services with the platform and forwards each call to the
  backend (a central unit, a hub or a climate entity). The model below follows
  services.py function by function. What the module does to the outside world is
  recorded as a list of events; an exception is a value of the result.
  Debug logging is left out: it changes nothing a service call can observe.
\<close>

subsection \<open>Python values and exceptions\<close>

text \<open>
  The values a service call carries. A float is represented by the rational number it
  holds (every finite float is one); a datetime by its six fields.
\<close>

datatype datetime = DateTime nat nat nat nat nat nat

datatype pyval =
    PyNone
  | PyBool bool
  | PyInt int
  | PyFloat rat
  | PyStr string
  | PyDateTime datetime

text \<open>
  \<open>NotCovered\<close> is not a Python exception: the sample environment at the end of the
  definitions answers with it where it does not say what Python does.
\<close>

datatype exc = KeyError | ValueError | TypeError | Invalid string | Raised string | NotCovered

text \<open>
  \<open>comp_entity_ids\<close> leaves either one of the match strings (\<open>all\<close>, \<open>none\<close>) or a
  list of entity ids in \<open>service.data[ATTR_ENTITY_ID]\<close>.
\<close>

datatype entity_ids = EntityMatch string | EntityList "string list"

text \<open>\<open>for entity_id in entity_ids\<close>: a str is iterated character by character.\<close>

fun iterate :: "entity_ids \<Rightarrow> string list" where
  "iterate (EntityMatch s) = map (\<lambda>c. [c]) s"
| "iterate (EntityList ids) = ids"

subsection \<open>Entities, control units and the platform's state\<close>

text \<open>
  The class of an object a control unit hands out: \<open>IPThermostat\<close> is a subclass of
  \<open>BaseEntity\<close>; \<open>OtherObject\<close> is anything that is not a \<open>BaseEntity\<close>.
\<close>

datatype hm_class = IPThermostat | BaseEntity | OtherObject

record hm_entity =
  entity_name :: string
  entity_class :: hm_class

definition isinstance_IPThermostat :: "hm_entity \<Rightarrow> bool" where
  "isinstance_IPThermostat entity = (entity_class entity = IPThermostat)"

definition isinstance_BaseEntity :: "hm_entity \<Rightarrow> bool" where
  "isinstance_BaseEntity entity = (entity_class entity \<noteq> OtherObject)"

datatype HmPlatform = CLIMATE | PLATFORM string

text \<open>
  \<open>control_unit.central\<close>: its name and the interface ids of \<open>central.clients\<close>
  (the keys that hold a client).
\<close>

record CentralUnit =
  instance_name :: string
  clients :: "string list"

record HaHub =
  hub_entity_id :: string

text \<open>
  A \<open>ControlUnit\<close> (control_unit.py, not among the sources): the two methods that
  services.py calls are fields of the record, so every behaviour of them is covered.
\<close>

record ControlUnit =
  central :: CentralUnit
  hub :: "HaHub option"
  async_get_hm_entity :: "string \<Rightarrow> hm_entity option"
  async_get_hm_entities_by_platform :: "HmPlatform \<Rightarrow> hm_entity list"

record DeviceEntry =
  identifiers :: "(string \<times> string) set"

datatype schema =
    SetVariableValueSchema
  | EnableAwayModeByCalendarSchema
  | DisableAwayModeSchema
  | SetInstallModeSchema
  | SetDeviceValueSchema
  | PutParamsetSchema

text \<open>
  What the platform keeps for a registered service: its schema, and whether it was
  registered through \<open>async_register_admin_service\<close>. The service function is the
  same for all six (\<open>async_call_hahm_service\<close>).
\<close>

record service_entry =
  entry_schema :: schema
  admin_service :: bool

text \<open>
  \<open>hass\<close>: the service registry (per domain, the services in the order of their
  registration), \<open>hass.data[DOMAIN]\<close> (entry id and control unit, in the order of the
  dict) and the device registry. A Python dict has each key once, so going through the
  keys and reading \<open>hass.data[DOMAIN][entry_id]\<close> is going through the pairs.
\<close>

record HomeAssistant =
  services :: "string \<Rightarrow> (string \<times> service_entry) list"
  data_domain :: "(string \<times> ControlUnit) list"
  device_registry :: "string \<Rightarrow> DeviceEntry option"

subsection \<open>Effects\<close>

datatype backend_call =
    SetValue string string string string pyval "string option"
  | PutParamset string string string string "(string \<times> pyval) list" "string option"
  | SetInstallMode string string int int "string option"
  | SetVariable string string pyval
  | EnableAwayModeByCalendar hm_entity pyval pyval pyval
  | DisableAwayMode hm_entity

datatype event = Call backend_call | Sleep nat

text \<open>
  The environment of a run: the conversions of Python that read or write text
  (parameters, they are no code of this repository),
  \<open>get_device_address_at_interface_from_identifiers\<close> of helpers.py (not among the
  sources; it yields the pair of device address and interface id, or nothing), and the
  backend: \<open>raises E tr c\<close> is the exception that call \<open>c\<close> ends with after the events
  \<open>tr\<close>, if it raises.
\<close>

record env =
  int_of_str :: "string \<Rightarrow> exc + int"
  float_of_str :: "string \<Rightarrow> exc + rat"
  float_of_int :: "int \<Rightarrow> exc + rat"
  str_of_float :: "rat \<Rightarrow> exc + string"
  str_of_datetime :: "datetime \<Rightarrow> exc + string"
  strptime_str :: "string \<Rightarrow> string \<Rightarrow> exc + datetime"
  get_device_address_at_interface_from_identifiers ::
    "(string \<times> string) set \<Rightarrow> (string \<times> string) option"
  raises :: "event list \<Rightarrow> backend_call \<Rightarrow> exc option"

text \<open>
  A coroutine of the module: from the events so far to the events after it, and the
  exception it ended with, if any.
\<close>

type_synonym prog = "event list \<Rightarrow> event list \<times> exc option"

definition skip :: prog where
  "skip tr = (tr, None)"

definition raise_exc :: "exc \<Rightarrow> prog" where
  "raise_exc e tr = (tr, Some e)"

definition await_call :: "env \<Rightarrow> backend_call \<Rightarrow> prog" where
  "await_call E c tr = (tr @ [Call c], raises E tr c)"

definition sleep :: "nat \<Rightarrow> prog" where
  "sleep n tr = (tr @ [Sleep n], None)"

text \<open>One statement after the other: an exception of the first ends both.\<close>

definition seq :: "prog \<Rightarrow> prog \<Rightarrow> prog" where
  "seq p q tr = (case p tr of (tr', None) \<Rightarrow> q tr' | (tr', Some e) \<Rightarrow> (tr', Some e))"

primrec for_each :: "'a list \<Rightarrow> ('a \<Rightarrow> prog) \<Rightarrow> prog" where
  "for_each [] body = skip"
| "for_each (x # xs) body = seq (body x) (for_each xs body)"

text \<open>\<open>service.data[key]\<close>: a missing key raises \<open>KeyError\<close>.\<close>

definition required :: "'a option \<Rightarrow> ('a \<Rightarrow> prog) \<Rightarrow> prog" where
  "required field k = (case field of None \<Rightarrow> raise_exc KeyError | Some x \<Rightarrow> k x)"

subsection \<open>Conversions of Python\<close>

definition digit_char :: "nat \<Rightarrow> char" where
  "digit_char n = ''0123456789'' ! n"

fun str_nat :: "nat \<Rightarrow> string" where
  "str_nat n = (if n < 10 then [digit_char n] else str_nat (n div 10) @ [digit_char (n mod 10)])"

declare str_nat.simps [simp del]

text \<open>\<open>str(i)\<close> and \<open>f"{i}"\<close> for an int.\<close>

definition str_int :: "int \<Rightarrow> string" where
  "str_int i = (if i < 0 then CHR ''-'' # str_nat (nat (- i)) else str_nat (nat i))"

text \<open>\<open>int(value)\<close>: a float is cut towards zero, text is parsed.\<close>

definition py_int :: "env \<Rightarrow> pyval \<Rightarrow> exc + int" where
  "py_int E v =
     (case v of
        PyInt i \<Rightarrow> Inr i
      | PyBool b \<Rightarrow> Inr (if b then 1 else 0)
      | PyFloat r \<Rightarrow> Inr (if 0 \<le> r then \<lfloor>r\<rfloor> else \<lceil>r\<rceil>)
      | PyStr s \<Rightarrow> int_of_str E s
      | PyNone \<Rightarrow> Inl TypeError
      | PyDateTime d \<Rightarrow> Inl TypeError)"

definition py_float :: "env \<Rightarrow> pyval \<Rightarrow> exc + rat" where
  "py_float E v =
     (case v of
        PyFloat r \<Rightarrow> Inr r
      | PyBool b \<Rightarrow> Inr (if b then 1 else 0)
      | PyInt i \<Rightarrow> float_of_int E i
      | PyStr s \<Rightarrow> float_of_str E s
      | PyNone \<Rightarrow> Inl TypeError
      | PyDateTime d \<Rightarrow> Inl TypeError)"

definition py_bool :: "pyval \<Rightarrow> bool" where
  "py_bool v =
     (case v of
        PyNone \<Rightarrow> False
      | PyBool b \<Rightarrow> b
      | PyInt i \<Rightarrow> i \<noteq> 0
      | PyFloat r \<Rightarrow> r \<noteq> 0
      | PyStr s \<Rightarrow> s \<noteq> []
      | PyDateTime d \<Rightarrow> True)"

definition py_str :: "env \<Rightarrow> pyval \<Rightarrow> exc + string" where
  "py_str E v =
     (case v of
        PyStr s \<Rightarrow> Inr s
      | PyInt i \<Rightarrow> Inr (str_int i)
      | PyBool b \<Rightarrow> Inr (if b then ''True'' else ''False'')
      | PyNone \<Rightarrow> Inr ''None''
      | PyFloat r \<Rightarrow> str_of_float E r
      | PyDateTime d \<Rightarrow> str_of_datetime E d)"

text \<open>\<open>datetime.strptime(value, fmt)\<close>: the first argument must be a str.\<close>

definition strptime :: "env \<Rightarrow> pyval \<Rightarrow> string \<Rightarrow> exc + datetime" where
  "strptime E v fmt = (case v of PyStr s \<Rightarrow> strptime_str E s fmt | _ \<Rightarrow> Inl TypeError)"

subsection \<open>Constants of the module\<close>

text \<open>
  \<open>DOMAIN\<close> is imported from const.py, which is not among the sources; the component's
  directory gives its value, and no theorem below depends on it.
\<close>

definition DOMAIN :: string where
  "DOMAIN = ''hahm''"

definition DEFAULT_CHANNEL :: int where
  "DEFAULT_CHANNEL = 1"

definition SERVICE_PUT_PARAMSET :: string where
  "SERVICE_PUT_PARAMSET = ''put_paramset''"

definition SERVICE_ENABLE_AWAY_MODE_BY_CALENDAR :: string where
  "SERVICE_ENABLE_AWAY_MODE_BY_CALENDAR = ''enable_away_mode_by_calendar''"

definition SERVICE_DISABLE_AWAY_MODE :: string where
  "SERVICE_DISABLE_AWAY_MODE = ''disable_away_mode''"

definition SERVICE_SET_DEVICE_VALUE :: string where
  "SERVICE_SET_DEVICE_VALUE = ''set_device_value''"

definition SERVICE_SET_INSTALL_MODE :: string where
  "SERVICE_SET_INSTALL_MODE = ''set_install_mode''"

definition SERVICE_SET_VARIABLE_VALUE :: string where
  "SERVICE_SET_VARIABLE_VALUE = ''set_variable_value''"

definition HAHM_SERVICES :: "string list" where
  "HAHM_SERVICES =
     [SERVICE_PUT_PARAMSET,
      SERVICE_ENABLE_AWAY_MODE_BY_CALENDAR,
      SERVICE_SET_DEVICE_VALUE,
      SERVICE_SET_INSTALL_MODE,
      SERVICE_SET_VARIABLE_VALUE]"

subsection \<open>Service calls\<close>

text \<open>
  \<open>service.data\<close>: a dict; each key the six schemas know is a field, absent when the
  dict does not hold the key, and typed as its schema leaves it (\<open>cv.string\<close> a str,
  \<open>vol.Coerce(int)\<close> and \<open>cv.positive_int\<close> an int, \<open>dict\<close> a dict,
  \<open>cv.match_all\<close> and the away mode's times and temperature any value).
\<close>

record service_data =
  d_entity_id :: "entity_ids option"
  d_name :: "string option"
  d_value :: "pyval option"
  d_device_id :: "string option"
  d_channel :: "int option"
  d_parameter :: "string option"
  d_value_type :: "string option"
  d_rx_mode :: "string option"
  d_away_start_time :: "pyval option"
  d_away_end_time :: "pyval option"
  d_away_set_point_temperature :: "pyval option"
  d_interface_id :: "string option"
  d_time :: "int option"
  d_mode :: "int option"
  d_address :: "string option"
  d_paramset_key :: "string option"
  d_paramset :: "(string \<times> pyval) list option"

record ServiceCall =
  service :: string
  data :: service_data

subsection \<open>The platform's service registry\<close>

text \<open>
  \<open>hass.services.async_register\<close> stores the service under its domain and name
  (a name registered before keeps its place); \<open>async_register_admin_service\<close> does
  the same with a service function that checks the caller first;
  \<open>hass.services.async_remove\<close> removes a service and does nothing for a name that
  is not registered.
\<close>

definition async_register :: "HomeAssistant \<Rightarrow> string \<Rightarrow> string \<Rightarrow> schema \<Rightarrow> HomeAssistant" where
  "async_register hass domain name sch =
     hass\<lparr>services := (services hass)
       (domain := AList.update name \<lparr>entry_schema = sch, admin_service = False\<rparr>
          (services hass domain))\<rparr>"

definition async_register_admin_service ::
  "HomeAssistant \<Rightarrow> string \<Rightarrow> string \<Rightarrow> schema \<Rightarrow> HomeAssistant" where
  "async_register_admin_service hass domain name sch =
     hass\<lparr>services := (services hass)
       (domain := AList.update name \<lparr>entry_schema = sch, admin_service = True\<rparr>
          (services hass domain))\<rparr>"

definition async_remove :: "HomeAssistant \<Rightarrow> string \<Rightarrow> string \<Rightarrow> HomeAssistant" where
  "async_remove hass domain name =
     (if map_of (services hass domain) name = None then hass
      else hass\<lparr>services := (services hass)
        (domain := AList.delete name (services hass domain))\<rparr>)"

text \<open>The names registered under a domain.\<close>

definition registered :: "HomeAssistant \<Rightarrow> string \<Rightarrow> string list" where
  "registered hass domain = map fst (services hass domain)"

subsection \<open>async_setup_services and async_unload_services\<close>

text \<open>
  \<open>if hass.services.async_services().get(DOMAIN): return\<close>: the domain's dict of
  services is there and not empty.
\<close>

definition async_setup_services :: "HomeAssistant \<Rightarrow> HomeAssistant" where
  "async_setup_services hass =
     (if services hass DOMAIN \<noteq> [] then hass
      else
        let h1 = async_register hass DOMAIN SERVICE_SET_VARIABLE_VALUE SetVariableValueSchema;
            h2 = async_register h1 DOMAIN SERVICE_ENABLE_AWAY_MODE_BY_CALENDAR
                   EnableAwayModeByCalendarSchema;
            h3 = async_register h2 DOMAIN SERVICE_DISABLE_AWAY_MODE DisableAwayModeSchema;
            h4 = async_register h3 DOMAIN SERVICE_SET_DEVICE_VALUE SetDeviceValueSchema;
            h5 = async_register_admin_service h4 DOMAIN SERVICE_SET_INSTALL_MODE
                   SetInstallModeSchema
        in async_register h5 DOMAIN SERVICE_PUT_PARAMSET PutParamsetSchema)"

text \<open>\<open>if hass.data[DOMAIN]: return\<close>: some control unit is still there.\<close>

definition async_unload_services :: "HomeAssistant \<Rightarrow> HomeAssistant" where
  "async_unload_services hass =
     (if data_domain hass \<noteq> [] then hass
      else foldl (\<lambda>h hahm_service. async_remove h DOMAIN hahm_service) hass HAHM_SERVICES)"

subsection \<open>Lookups\<close>

definition get_interface_channel_address ::
  "env \<Rightarrow> HomeAssistant \<Rightarrow> string \<Rightarrow> int \<Rightarrow> (string \<times> string) option" where
  "get_interface_channel_address E hass device_id channel =
     (case device_registry hass device_id of
        None \<Rightarrow> None
      | Some device_entry \<Rightarrow>
          (case get_device_address_at_interface_from_identifiers E (identifiers device_entry) of
             None \<Rightarrow> None
           | Some d \<Rightarrow>
               let device_address = fst d;
                   interface_id = snd d;
                   channel_address = device_address @ '':'' @ str_int channel
               in Some (interface_id, channel_address)))"

fun get_entity_in :: "ControlUnit list \<Rightarrow> string \<Rightarrow> hm_entity option" where
  "get_entity_in [] entity_id = None"
| "get_entity_in (control_unit # rest) entity_id =
     (case async_get_hm_entity control_unit entity_id of
        Some hm_entity \<Rightarrow>
          if isinstance_BaseEntity hm_entity then Some hm_entity
          else get_entity_in rest entity_id
      | None \<Rightarrow> get_entity_in rest entity_id)"

definition get_entity :: "HomeAssistant \<Rightarrow> string \<Rightarrow> hm_entity option" where
  "get_entity hass entity_id = get_entity_in (map snd (data_domain hass)) entity_id"

definition get_entities_by_platform :: "HomeAssistant \<Rightarrow> HmPlatform \<Rightarrow> hm_entity list" where
  "get_entities_by_platform hass platform =
     foldl (\<lambda>hm_entities control_unit.
              hm_entities @ async_get_hm_entities_by_platform control_unit platform)
       [] (map snd (data_domain hass))"

definition get_cu_by_interface_id :: "HomeAssistant \<Rightarrow> string \<Rightarrow> ControlUnit option" where
  "get_cu_by_interface_id hass interface_id =
     find (\<lambda>control_unit. interface_id \<in> set (clients (central control_unit)))
       (map snd (data_domain hass))"

text \<open>
  \<open>control_unit.hub.entity_id == entity_id\<close>: the hub's entity id is a str, so it is
  equal to a match string that reads the same and to no list.
\<close>

fun get_hub_in :: "ControlUnit list \<Rightarrow> entity_ids \<Rightarrow> HaHub option" where
  "get_hub_in [] entity_id = None"
| "get_hub_in (control_unit # rest) entity_id =
     (case hub control_unit of
        Some h \<Rightarrow>
          if EntityMatch (hub_entity_id h) = entity_id then Some h
          else get_hub_in rest entity_id
      | None \<Rightarrow> get_hub_in rest entity_id)"

definition get_hub_by_entity_id :: "HomeAssistant \<Rightarrow> entity_ids \<Rightarrow> HaHub option" where
  "get_hub_by_entity_id hass entity_id = get_hub_in (map snd (data_domain hass)) entity_id"

subsection \<open>The service handlers\<close>

definition async_service_set_variable_value :: "env \<Rightarrow> HomeAssistant \<Rightarrow> ServiceCall \<Rightarrow> prog" where
  "async_service_set_variable_value E hass call =
     required (d_entity_id (data call)) (\<lambda>entity_id.
     required (d_name (data call)) (\<lambda>name.
     required (d_value (data call)) (\<lambda>val.
       case get_hub_by_entity_id hass entity_id of
         Some h \<Rightarrow> await_call E (SetVariable (hub_entity_id h) name val)
       | None \<Rightarrow> skip)))"

text \<open>
  Lines 226 to 237 of services.py: \<open>if value_type := service.data.get(ATTR_VALUE_TYPE)\<close>
  is false for an absent and for an empty value type.
\<close>

definition convert_value :: "env \<Rightarrow> string option \<Rightarrow> pyval \<Rightarrow> exc + pyval" where
  "convert_value E value_type val =
     (case value_type of
        None \<Rightarrow> Inr val
      | Some vt \<Rightarrow>
          if vt = [] then Inr val
          else if vt = ''int'' then map_sum id PyInt (py_int E val)
          else if vt = ''double'' then map_sum id PyFloat (py_float E val)
          else if vt = ''boolean'' then Inr (PyBool (py_bool val))
          else if vt = ''dateTime.iso8601'' then
            map_sum id PyDateTime (strptime E val ''%Y%m%dT%H:%M:%S'')
          else map_sum id PyStr (py_str E val))"

definition async_service_set_device_value :: "env \<Rightarrow> HomeAssistant \<Rightarrow> ServiceCall \<Rightarrow> prog" where
  "async_service_set_device_value E hass call =
     required (d_device_id (data call)) (\<lambda>device_id.
     required (d_channel (data call)) (\<lambda>channel.
     required (d_parameter (data call)) (\<lambda>parameter.
     required (d_value (data call)) (\<lambda>val.
       let rx_mode = d_rx_mode (data call) in
       case convert_value E (d_value_type (data call)) val of
         Inl e \<Rightarrow> raise_exc e
       | Inr val' \<Rightarrow>
           (case get_interface_channel_address E hass device_id channel of
              None \<Rightarrow> skip
            | Some address_data \<Rightarrow>
                let interface_id = fst address_data;
                    channel_address = snd address_data
                in
                  if interface_id \<noteq> [] \<and> channel_address \<noteq> [] then
                    (case get_cu_by_interface_id hass interface_id of
                       Some control_unit \<Rightarrow>
                         await_call E
                           (SetValue (instance_name (central control_unit)) interface_id
                              channel_address parameter val' rx_mode)
                     | None \<Rightarrow> skip)
                  else skip)))))"

text \<open>The inner coroutine \<open>_enable_away_mode_by_calendar\<close>.\<close>

definition enable_away_mode_by_calendar :: "env \<Rightarrow> pyval \<Rightarrow> pyval \<Rightarrow> pyval \<Rightarrow> hm_entity \<Rightarrow> prog" where
  "enable_away_mode_by_calendar E start finish away_temperature entity =
     (if \<not> isinstance_IPThermostat entity then skip
      else seq (await_call E (EnableAwayModeByCalendar entity start finish away_temperature))
             (sleep 1))"

definition async_service_enable_away_mode_by_calendar ::
  "env \<Rightarrow> HomeAssistant \<Rightarrow> ServiceCall \<Rightarrow> prog" where
  "async_service_enable_away_mode_by_calendar E hass call =
     required (d_entity_id (data call)) (\<lambda>entity_ids.
     required (d_away_start_time (data call)) (\<lambda>start.
     required (d_away_end_time (data call)) (\<lambda>finish.
     required (d_away_set_point_temperature (data call)) (\<lambda>away_temperature.
       if entity_ids = EntityMatch ''all'' then
         for_each (get_entities_by_platform hass CLIMATE)
           (\<lambda>platform_entity.
              enable_away_mode_by_calendar E start finish away_temperature platform_entity)
       else
         for_each (iterate entity_ids)
           (\<lambda>entity_id.
              case get_entity hass entity_id of
                Some hm_entity \<Rightarrow>
                  enable_away_mode_by_calendar E start finish away_temperature hm_entity
              | None \<Rightarrow> skip)))))"

text \<open>The inner coroutine \<open>_disable_away_mode\<close>.\<close>

definition disable_away_mode :: "env \<Rightarrow> hm_entity \<Rightarrow> prog" where
  "disable_away_mode E entity =
     (if \<not> isinstance_IPThermostat entity then skip
      else seq (await_call E (DisableAwayMode entity)) (sleep 1))"

definition async_service_disable_away_mode :: "env \<Rightarrow> HomeAssistant \<Rightarrow> ServiceCall \<Rightarrow> prog" where
  "async_service_disable_away_mode E hass call =
     required (d_entity_id (data call)) (\<lambda>entity_ids.
       if entity_ids = EntityMatch ''all'' then
         for_each (get_entities_by_platform hass CLIMATE)
           (\<lambda>platform_entity. disable_away_mode E platform_entity)
       else
         for_each (iterate entity_ids)
           (\<lambda>entity_id.
              case get_entity hass entity_id of
                Some hm_entity \<Rightarrow> disable_away_mode E hm_entity
              | None \<Rightarrow> skip))"

definition async_service_set_install_mode :: "env \<Rightarrow> HomeAssistant \<Rightarrow> ServiceCall \<Rightarrow> prog" where
  "async_service_set_install_mode E hass call =
     required (d_interface_id (data call)) (\<lambda>interface_id.
       let mode = (case d_mode (data call) of Some m \<Rightarrow> m | None \<Rightarrow> 1);
           time = (case d_time (data call) of Some t \<Rightarrow> t | None \<Rightarrow> 60);
           device_address = d_address (data call)
       in
         case get_cu_by_interface_id hass interface_id of
           Some control_unit \<Rightarrow>
             await_call E
               (SetInstallMode (instance_name (central control_unit)) interface_id time mode
                  device_address)
         | None \<Rightarrow> skip)"

definition async_service_put_paramset :: "env \<Rightarrow> HomeAssistant \<Rightarrow> ServiceCall \<Rightarrow> prog" where
  "async_service_put_paramset E hass call =
     required (d_device_id (data call)) (\<lambda>device_id.
     required (d_channel (data call)) (\<lambda>channel.
     required (d_paramset_key (data call)) (\<lambda>paramset_key.
     required (d_paramset (data call)) (\<lambda>paramset.
       let rx_mode = d_rx_mode (data call) in
       case get_interface_channel_address E hass device_id channel of
         None \<Rightarrow> skip
       | Some address_data \<Rightarrow>
           let interface_id = fst address_data;
               channel_address = snd address_data
           in
             if interface_id \<noteq> [] \<and> channel_address \<noteq> [] then
               (case get_cu_by_interface_id hass interface_id of
                  Some control_unit \<Rightarrow>
                    await_call E
                      (PutParamset (instance_name (central control_unit)) interface_id
                         channel_address paramset_key paramset rx_mode)
                | None \<Rightarrow> skip)
             else skip))))"

subsection \<open>The service function\<close>

text \<open>
  The body of \<open>async_call_hahm_service\<close>: two \<open>if\<close> statements, then an \<open>if\<close> with
  three \<open>elif\<close> branches. The six awaited handler calls are parameters, in the order
  in which the function names them, so that the chain can be read on its own.
\<close>

definition call_hahm_service ::
  "string \<Rightarrow> prog \<Rightarrow> prog \<Rightarrow> prog \<Rightarrow> prog \<Rightarrow> prog \<Rightarrow> prog \<Rightarrow> prog" where
  "call_hahm_service service_name put_paramset enable_away_mode disable_away_mode_all
       set_install_mode set_device_value set_variable_value =
     seq (if service_name = SERVICE_PUT_PARAMSET then put_paramset else skip)
    (seq (if service_name = SERVICE_ENABLE_AWAY_MODE_BY_CALENDAR then enable_away_mode else skip)
         (if service_name = SERVICE_DISABLE_AWAY_MODE then disable_away_mode_all
          else if service_name = SERVICE_SET_INSTALL_MODE then set_install_mode
          else if service_name = SERVICE_SET_DEVICE_VALUE then set_device_value
          else if service_name = SERVICE_SET_VARIABLE_VALUE then set_variable_value
          else skip))"

text \<open>
  \<open>async_call_hahm_service\<close>, the function registered for all six services. The
  decorator \<open>verify_domain_control\<close> belongs to the platform (it checks the caller's
  rights before the body runs) and is not part of the model.
\<close>

definition async_call_hahm_service :: "env \<Rightarrow> HomeAssistant \<Rightarrow> ServiceCall \<Rightarrow> prog" where
  "async_call_hahm_service E hass call =
     (let service_name = service call in
      call_hahm_service service_name
        (async_service_put_paramset E hass call)
        (async_service_enable_away_mode_by_calendar E hass call)
        (async_service_disable_away_mode E hass call)
        (async_service_set_install_mode E hass call)
        (async_service_set_device_value E hass call)
        (async_service_set_variable_value E hass call))"

subsection \<open>The schema of enable_away_mode_by_calendar\<close>

text \<open>
  Modelled from the spec: the validators of voluptuous, which are no file of the
  repository. The schema declares the temperature as
  \<open>vol.All(vol.Coerce(float), vol.Range(min=4.5, max=30.5))\<close> with the default 18.0
  (lines 73 to 82 of services.py), the spec describes it as a float in the range
  [4.5, 30.5] with the default 18.0. \<open>vol.Coerce(float)\<close> calls \<open>float\<close> and turns its
  \<open>ValueError\<close> and \<open>TypeError\<close> into \<open>Invalid\<close>; \<open>vol.Range(min, max)\<close> accepts the
  closed interval; \<open>vol.All\<close> applies one validator after the other.
\<close>

definition vol_Coerce_float :: "env \<Rightarrow> pyval \<Rightarrow> exc + rat" where
  "vol_Coerce_float E v =
     (case py_float E v of
        Inl e \<Rightarrow> if e = ValueError \<or> e = TypeError then Inl (Invalid ''expected float'') else Inl e
      | Inr r \<Rightarrow> Inr r)"

definition vol_Range :: "rat \<Rightarrow> rat \<Rightarrow> rat \<Rightarrow> exc + rat" where
  "vol_Range lo hi r =
     (if r < lo then Inl (Invalid ''value must be at least min'')
      else if hi < r then Inl (Invalid ''value must be at most max'')
      else Inr r)"

text \<open>
  \<open>vol.All(vol.Coerce(float), vol.Range(min=4.5, max=30.5))\<close>, the validator of
  \<open>away_set_point_temperature\<close>.
\<close>

definition away_set_point_temperature_validator :: "env \<Rightarrow> pyval \<Rightarrow> exc + rat" where
  "away_set_point_temperature_validator E v =
     (case vol_Coerce_float E v of Inl e \<Rightarrow> Inl e | Inr r \<Rightarrow> vol_Range 4.5 30.5 r)"

text \<open>The keys of a call's data that the schema of the service does not declare.\<close>

definition extra_keys_enable_away_mode :: "service_data \<Rightarrow> bool" where
  "extra_keys_enable_away_mode d =
     (d_name d \<noteq> None \<or> d_value d \<noteq> None \<or> d_device_id d \<noteq> None \<or> d_channel d \<noteq> None \<or>
      d_parameter d \<noteq> None \<or> d_value_type d \<noteq> None \<or> d_rx_mode d \<noteq> None \<or>
      d_interface_id d \<noteq> None \<or> d_time d \<noteq> None \<or> d_mode d \<noteq> None \<or>
      d_address d \<noteq> None \<or> d_paramset_key d \<noteq> None \<or> d_paramset d \<noteq> None)"

text \<open>
  Modelled from the spec: voluptuous applying the mapping
  \<open>SCHEMA_SERVICE_ENABLE_AWAY_MODE_BY_CALENDAR\<close> (declared in lines 73 to 82 of
  services.py) to the data of a call. A key the schema does not declare is refused, the
  four keys are required, a missing temperature is replaced by the default 18.0 before
  its validator runs. The validators of the other three keys (\<open>comp_entity_ids\<close>,
  \<open>cv.datetime\<close>) are in the types of their fields. Where several keys fail,
  voluptuous reports all of them; the model reports one.
\<close>

definition SCHEMA_SERVICE_ENABLE_AWAY_MODE_BY_CALENDAR ::
  "env \<Rightarrow> service_data \<Rightarrow> exc + service_data" where
  "SCHEMA_SERVICE_ENABLE_AWAY_MODE_BY_CALENDAR E d =
     (if extra_keys_enable_away_mode d then Inl (Invalid ''extra keys not allowed'')
      else
        case away_set_point_temperature_validator E
               (case d_away_set_point_temperature d of None \<Rightarrow> PyFloat 18.0 | Some v \<Rightarrow> v) of
          Inl e \<Rightarrow> Inl e
        | Inr r \<Rightarrow>
            if d_entity_id d = None \<or> d_away_start_time d = None \<or> d_away_end_time d = None
            then Inl (Invalid ''required key not provided'')
            else Inr (d\<lparr>d_away_set_point_temperature := Some (PyFloat r)\<rparr>))"

text \<open>
  Modelled from the spec: the platform's call of a registered service (the service
  registry of the platform is no file of the repository). The schema registered with the
  service is applied to the data of the call; a failure rejects the call before the
  service function runs, otherwise the service function gets the validated data.
\<close>

definition call_enable_away_mode_by_calendar ::
  "env \<Rightarrow> HomeAssistant \<Rightarrow> service_data \<Rightarrow> prog" where
  "call_enable_away_mode_by_calendar E hass d =
     (case SCHEMA_SERVICE_ENABLE_AWAY_MODE_BY_CALENDAR E d of
        Inl e \<Rightarrow> raise_exc e
      | Inr d' \<Rightarrow>
          async_call_hahm_service E hass
            \<lparr>service = SERVICE_ENABLE_AWAY_MODE_BY_CALENDAR, data = d'\<rparr>)"

subsection \<open>Notions of the statements\<close>

text \<open>
  A call with a route: the device id resolves to a pair of interface id and channel
  address, the interface id is not empty, and some control unit has a client for it.
\<close>

definition has_route :: "env \<Rightarrow> HomeAssistant \<Rightarrow> string \<Rightarrow> int \<Rightarrow> bool" where
  "has_route E hass device_id channel =
     (case get_interface_channel_address E hass device_id channel of
        None \<Rightarrow> False
      | Some address_data \<Rightarrow>
          fst address_data \<noteq> [] \<and>
          list_ex (\<lambda>control_unit. fst address_data \<in> set (clients (central control_unit)))
            (map snd (data_domain hass)))"

text \<open>
  A coroutine lets the exceptions of the backend through: it only adds events, and a
  backend call of its that raised is the last event of the run, which ends with the
  exception of that call.
\<close>

definition propagates :: "env \<Rightarrow> prog \<Rightarrow> bool" where
  "propagates E p \<longleftrightarrow>
     (\<forall>tr tr' r. p tr = (tr', r) \<longrightarrow>
        (\<exists>new. tr' = tr @ new) \<and>
        (\<forall>i c e. length tr \<le> i \<and> i < length tr' \<and> tr' ! i = Call c \<and>
           raises E (take i tr') c = Some e \<longrightarrow> r = Some e \<and> Suc i = length tr'))"

subsection \<open>A sample environment and sample states\<close>

text \<open>
  The theorems below hold for every environment. To run the model, the conversions are
  given on a part of their domain where Python's answer is plain, and \<open>NotCovered\<close>
  elsewhere: \<open>int\<close> on a text of at most 4300 ASCII digits (its decimal value) and on a
  text of ASCII letters only (\<open>ValueError\<close>); \<open>float\<close> on at most 15 digits, followed
  by nothing, by \<open>.0\<close> or by \<open>.5\<close>, and on an int up to \<open>2 ^ 53\<close> (exact values);
  \<open>strptime\<close> with the pattern of services.py on a text of the full width with a year
  from 1, a month from 1 to 12 and a day from 1 to 28.
\<close>

definition is_digit :: "char \<Rightarrow> bool" where
  "is_digit c = (c \<in> set ''0123456789'')"

definition is_letter :: "char \<Rightarrow> bool" where
  "is_letter c = (c \<in> set ''abcdefghijklmnopqrstuvwxyzABCDEFGHIJKLMNOPQRSTUVWXYZ'')"

definition digit_val :: "char \<Rightarrow> nat" where
  "digit_val c = length (takeWhile (\<lambda>x. x \<noteq> c) ''0123456789'')"

definition decimal :: "string \<Rightarrow> nat" where
  "decimal s = foldl (\<lambda>n c. 10 * n + digit_val c) 0 s"

definition sample_int_of_str :: "string \<Rightarrow> exc + int" where
  "sample_int_of_str s =
     (if s \<noteq> [] \<and> length s \<le> 4300 \<and> list_all is_digit s then Inr (int (decimal s))
      else if list_all is_letter s then Inl ValueError
      else Inl NotCovered)"

definition sample_float_of_str :: "string \<Rightarrow> exc + rat" where
  "sample_float_of_str s =
     (let ip = takeWhile is_digit s; rest = dropWhile is_digit s in
      if ip \<noteq> [] \<and> length ip \<le> 15 \<and> (rest = [] \<or> rest = ''.0'' \<or> rest = ''.5'')
      then Inr (of_nat (decimal ip) + (if rest = ''.5'' then 1 / 2 else 0))
      else Inl NotCovered)"

definition sample_float_of_int :: "int \<Rightarrow> exc + rat" where
  "sample_float_of_int i = (if \<bar>i\<bar> \<le> 2 ^ 53 then Inr (of_int i) else Inl NotCovered)"

definition sample_strptime_str :: "string \<Rightarrow> string \<Rightarrow> exc + datetime" where
  "sample_strptime_str s fmt =
     (let y = decimal (take 4 s); m = decimal (take 2 (drop 4 s));
          d = decimal (take 2 (drop 6 s)); hh = decimal (take 2 (drop 9 s));
          mm = decimal (take 2 (drop 12 s)); ss = decimal (take 2 (drop 15 s))
      in
        if fmt = ''%Y%m%dT%H:%M:%S'' \<and> length s = 17 \<and>
           list_all is_digit (take 8 s @ take 2 (drop 9 s) @ take 2 (drop 12 s) @ drop 15 s) \<and>
           s ! 8 = CHR ''T'' \<and> s ! 11 = CHR '':'' \<and> s ! 14 = CHR '':'' \<and>
           1 \<le> y \<and> 1 \<le> m \<and> m \<le> 12 \<and> 1 \<le> d \<and> d \<le> 28 \<and> hh \<le> 23 \<and> mm \<le> 59 \<and> ss \<le> 59
        then Inr (DateTime y m d hh mm ss)
        else Inl NotCovered)"

text \<open>
  The sample of \<open>get_device_address_at_interface_from_identifiers\<close> knows one
  identifier; the sample backend never raises.
\<close>

definition sample_env :: env where
  "sample_env =
     \<lparr>int_of_str = sample_int_of_str,
      float_of_str = sample_float_of_str,
      float_of_int = sample_float_of_int,
      str_of_float = (\<lambda>r. Inl NotCovered),
      str_of_datetime = (\<lambda>d. Inl NotCovered),
      strptime_str = sample_strptime_str,
      get_device_address_at_interface_from_identifiers =
        (\<lambda>ids. if (''hahm'', ''ADDR@BidCos-RF'') \<in> ids then Some (''ADDR'', ''BidCos-RF'')
               else None),
      raises = (\<lambda>tr c. None)\<rparr>"

text \<open>A backend on which every call raises.\<close>

definition failing_env :: env where
  "failing_env = sample_env\<lparr>raises := (\<lambda>tr c. Some (Raised ''ClientException''))\<rparr>"

text \<open>The data of a call before any key is set.\<close>

definition no_data :: service_data where
  "no_data =
     \<lparr>d_entity_id = None, d_name = None, d_value = None, d_device_id = None,
      d_channel = None, d_parameter = None, d_value_type = None, d_rx_mode = None,
      d_away_start_time = None, d_away_end_time = None, d_away_set_point_temperature = None,
      d_interface_id = None, d_time = None, d_mode = None, d_address = None,
      d_paramset_key = None, d_paramset = None\<rparr>"

text \<open>
  A thermostat, a switch, and a control unit that holds both: the thermostat and the
  switch are on the climate platform, the unit has a client for one interface.
\<close>

definition thermostat :: hm_entity where
  "thermostat = \<lparr>entity_name = ''Thermostat'', entity_class = IPThermostat\<rparr>"

definition switch :: hm_entity where
  "switch = \<lparr>entity_name = ''Switch'', entity_class = BaseEntity\<rparr>"

definition sample_unit :: ControlUnit where
  "sample_unit =
     \<lparr>central = \<lparr>instance_name = ''ccu'', clients = [''BidCos-RF'']\<rparr>,
      hub = Some \<lparr>hub_entity_id = ''hahm.ccu''\<rparr>,
      async_get_hm_entity =
        (\<lambda>entity_id. if entity_id = ''climate.thermostat'' then Some thermostat
                     else if entity_id = ''switch.switch'' then Some switch else None),
      async_get_hm_entities_by_platform =
        (\<lambda>platform. if platform = CLIMATE then [switch, thermostat] else [])\<rparr>"

text \<open>The platform before setup, without and with a control unit and a known device.\<close>

definition empty_hass :: HomeAssistant where
  "empty_hass = \<lparr>services = (\<lambda>domain. []), data_domain = [], device_registry = (\<lambda>device_id. None)\<rparr>"

definition sample_hass :: HomeAssistant where
  "sample_hass =
     \<lparr>services = (\<lambda>domain. []),
      data_domain = [(''entry1'', sample_unit)],
      device_registry =
        (\<lambda>device_id. if device_id = ''dev1''
                      then Some \<lparr>identifiers = {(''hahm'', ''ADDR@BidCos-RF'')}\<rparr> else None)\<rparr>"

section \<open>Properties\<close>

subsection \<open>Sequencing\<close>

lemma seq_skip_left: "seq skip p = p"
  by (rule ext) (simp add: seq_def skip_def)

lemma seq_skip_right: "seq p skip = p"
  by (rule ext) (auto simp: seq_def skip_def split: prod.splits option.splits)

lemma seq_assoc: "seq (seq p q) r = seq p (seq q r)"
  by (rule ext) (auto simp: seq_def split: prod.splits option.splits)

lemma for_each_append: "for_each (xs @ ys) body = seq (for_each xs body) (for_each ys body)"
  by (induction xs) (simp_all add: seq_skip_left seq_assoc)

text \<open>The six service names, to tell them apart.\<close>

lemmas service_names =
  SERVICE_PUT_PARAMSET_def SERVICE_ENABLE_AWAY_MODE_BY_CALENDAR_def
  SERVICE_DISABLE_AWAY_MODE_def SERVICE_SET_DEVICE_VALUE_def
  SERVICE_SET_INSTALL_MODE_def SERVICE_SET_VARIABLE_VALUE_def

subsection \<open>Facts about the sample environment\<close>

lemma str_int_1: "str_int 1 = ''1''"
  by (simp add: str_int_def str_nat.simps digit_char_def)

lemma sample_route_dev1:
  "get_interface_channel_address sample_env sample_hass ''dev1'' 1 =
     Some (''BidCos-RF'', ''ADDR:1'')"
  by (simp add: get_interface_channel_address_def sample_env_def sample_hass_def str_int_1)

lemma sample_route_nodev:
  "get_interface_channel_address sample_env sample_hass ''nodev'' 1 = None"
  by (simp add: get_interface_channel_address_def sample_hass_def)

lemma sample_int_5: "int_of_str sample_env ''5'' = Inr 5"
  by (simp add: sample_env_def sample_int_of_str_def is_digit_def decimal_def digit_val_def)

lemma sample_int_abc: "int_of_str sample_env ''abc'' = Inl ValueError"
  by (simp add: sample_env_def sample_int_of_str_def is_digit_def is_letter_def)

lemma sample_float_3_5: "float_of_str sample_env ''3.5'' = Inr 3.5"
  by (simp add: sample_env_def sample_float_of_str_def is_digit_def decimal_def digit_val_def)

lemma sample_strptime:
  "strptime_str sample_env ''20220101T10:00:00'' ''%Y%m%dT%H:%M:%S'' =
     Inr (DateTime 2022 1 1 10 0 0)"
  by (simp add: sample_env_def sample_strptime_str_def is_digit_def decimal_def digit_val_def)

subsection \<open>Registration and removal of the services\<close>

text \<open>
  C1. Claim: when no control unit is left, \<open>async_unload_services\<close> removes every
  service that \<open>async_setup_services\<close> registered, all six names. The code does not:
  \<open>HAHM_SERVICES\<close> lists five names and leaves out \<open>SERVICE_DISABLE_AWAY_MODE\<close>.
  After setup on a platform without services of the domain and an unload without
  control units, \<open>disable_away_mode\<close> is still registered, and it is the only one.
\<close>

theorem unload_leaves_disable_away_mode:
  "data_domain hass = [] \<Longrightarrow> services hass DOMAIN = [] \<Longrightarrow>
   registered (async_unload_services (async_setup_services hass)) DOMAIN =
     [SERVICE_DISABLE_AWAY_MODE]"
  by (simp add: async_unload_services_def async_setup_services_def async_register_def
      async_register_admin_service_def async_remove_def registered_def HAHM_SERVICES_def
      service_names Let_def)

theorem unload_leaves_disable_away_mode_witness:
  "data_domain empty_hass = [] \<and> services empty_hass DOMAIN = [] \<and>
   registered (async_unload_services (async_setup_services empty_hass)) DOMAIN =
     [SERVICE_DISABLE_AWAY_MODE]"
  using unload_leaves_disable_away_mode [of empty_hass] by (simp add: empty_hass_def)

text \<open>
  A setup after such an unload finds the domain with a service and registers nothing:
  the five removed services stay away.
\<close>

lemma setup_after_unload_registers_nothing:
  "data_domain hass = [] \<Longrightarrow> services hass DOMAIN = [] \<Longrightarrow>
   registered (async_setup_services (async_unload_services (async_setup_services hass))) DOMAIN =
     [SERVICE_DISABLE_AWAY_MODE]"
  by (simp add: async_unload_services_def async_setup_services_def async_register_def
      async_register_admin_service_def async_remove_def registered_def HAHM_SERVICES_def
      service_names Let_def)

text \<open>
  C8. \<open>async_setup_services\<close> is idempotent: called when the domain has services
  registered, it returns the platform's state as it was; so a second call after a first
  changes nothing.
\<close>

theorem async_setup_services_idempotent:
  "(services hass DOMAIN \<noteq> [] \<longrightarrow> async_setup_services hass = hass) \<and>
   async_setup_services (async_setup_services hass) = async_setup_services hass"
proof -
  have registered: "services (async_setup_services hass) DOMAIN \<noteq> []"
    by (simp add: async_setup_services_def async_register_def
        async_register_admin_service_def Let_def)
  have noop: "async_setup_services h = h" if "services h DOMAIN \<noteq> []" for h
    using that by (simp add: async_setup_services_def)
  from noop [OF registered] noop show ?thesis by blast
qed

theorem async_setup_services_idempotent_witness:
  "services (async_setup_services empty_hass) DOMAIN \<noteq> [] \<and>
   async_setup_services (async_setup_services empty_hass) = async_setup_services empty_hass"
proof -
  have "services (async_setup_services empty_hass) DOMAIN \<noteq> []"
    by (simp add: async_setup_services_def async_register_def
        async_register_admin_service_def empty_hass_def Let_def)
  with async_setup_services_idempotent [of "async_setup_services empty_hass"]
  show ?thesis by simp
qed

subsection \<open>The service function\<close>

text \<open>
  The chain on its own: whatever the six coroutines do, the chain is the one that the
  name selects, and nothing for any other name.
\<close>

lemma call_hahm_service_selects:
  "(service_name = SERVICE_PUT_PARAMSET \<longrightarrow>
      call_hahm_service service_name p1 p2 p3 p4 p5 p6 = p1) \<and>
   (service_name = SERVICE_ENABLE_AWAY_MODE_BY_CALENDAR \<longrightarrow>
      call_hahm_service service_name p1 p2 p3 p4 p5 p6 = p2) \<and>
   (service_name = SERVICE_DISABLE_AWAY_MODE \<longrightarrow>
      call_hahm_service service_name p1 p2 p3 p4 p5 p6 = p3) \<and>
   (service_name = SERVICE_SET_INSTALL_MODE \<longrightarrow>
      call_hahm_service service_name p1 p2 p3 p4 p5 p6 = p4) \<and>
   (service_name = SERVICE_SET_DEVICE_VALUE \<longrightarrow>
      call_hahm_service service_name p1 p2 p3 p4 p5 p6 = p5) \<and>
   (service_name = SERVICE_SET_VARIABLE_VALUE \<longrightarrow>
      call_hahm_service service_name p1 p2 p3 p4 p5 p6 = p6) \<and>
   (service_name \<notin> {SERVICE_PUT_PARAMSET, SERVICE_ENABLE_AWAY_MODE_BY_CALENDAR,
        SERVICE_DISABLE_AWAY_MODE, SERVICE_SET_INSTALL_MODE, SERVICE_SET_DEVICE_VALUE,
        SERVICE_SET_VARIABLE_VALUE} \<longrightarrow>
      call_hahm_service service_name p1 p2 p3 p4 p5 p6 = skip)"
  by (simp add: call_hahm_service_def seq_skip_left seq_skip_right service_names)

text \<open>
  C10. \<open>async_call_hahm_service\<close> runs exactly the handler of the service the call
  names, for each of the six names, although the chain mixes \<open>if\<close> and \<open>elif\<close>: the
  whole function is equal to that one handler. For a name that is none of the six it
  does nothing.
\<close>

theorem async_call_hahm_service_one_handler:
  "(service call = SERVICE_PUT_PARAMSET \<longrightarrow>
      async_call_hahm_service E hass call = async_service_put_paramset E hass call) \<and>
   (service call = SERVICE_ENABLE_AWAY_MODE_BY_CALENDAR \<longrightarrow>
      async_call_hahm_service E hass call =
        async_service_enable_away_mode_by_calendar E hass call) \<and>
   (service call = SERVICE_DISABLE_AWAY_MODE \<longrightarrow>
      async_call_hahm_service E hass call = async_service_disable_away_mode E hass call) \<and>
   (service call = SERVICE_SET_INSTALL_MODE \<longrightarrow>
      async_call_hahm_service E hass call = async_service_set_install_mode E hass call) \<and>
   (service call = SERVICE_SET_DEVICE_VALUE \<longrightarrow>
      async_call_hahm_service E hass call = async_service_set_device_value E hass call) \<and>
   (service call = SERVICE_SET_VARIABLE_VALUE \<longrightarrow>
      async_call_hahm_service E hass call = async_service_set_variable_value E hass call) \<and>
   (service call \<notin> {SERVICE_PUT_PARAMSET, SERVICE_ENABLE_AWAY_MODE_BY_CALENDAR,
        SERVICE_DISABLE_AWAY_MODE, SERVICE_SET_INSTALL_MODE, SERVICE_SET_DEVICE_VALUE,
        SERVICE_SET_VARIABLE_VALUE} \<longrightarrow>
      async_call_hahm_service E hass call = skip)"
  using call_hahm_service_selects [of "service call"
      "async_service_put_paramset E hass call"
      "async_service_enable_away_mode_by_calendar E hass call"
      "async_service_disable_away_mode E hass call"
      "async_service_set_install_mode E hass call"
      "async_service_set_device_value E hass call"
      "async_service_set_variable_value E hass call"]
  by (simp add: async_call_hahm_service_def)

theorem async_call_hahm_service_one_handler_witness:
  "async_call_hahm_service sample_env sample_hass \<lparr>service = SERVICE_PUT_PARAMSET, data = no_data\<rparr> =
     async_service_put_paramset sample_env sample_hass \<lparr>service = SERVICE_PUT_PARAMSET, data = no_data\<rparr> \<and>
   async_call_hahm_service sample_env sample_hass
       \<lparr>service = SERVICE_ENABLE_AWAY_MODE_BY_CALENDAR, data = no_data\<rparr> =
     async_service_enable_away_mode_by_calendar sample_env sample_hass
       \<lparr>service = SERVICE_ENABLE_AWAY_MODE_BY_CALENDAR, data = no_data\<rparr> \<and>
   async_call_hahm_service sample_env sample_hass
       \<lparr>service = SERVICE_DISABLE_AWAY_MODE, data = no_data\<rparr> =
     async_service_disable_away_mode sample_env sample_hass
       \<lparr>service = SERVICE_DISABLE_AWAY_MODE, data = no_data\<rparr> \<and>
   async_call_hahm_service sample_env sample_hass
       \<lparr>service = SERVICE_SET_INSTALL_MODE, data = no_data\<rparr> =
     async_service_set_install_mode sample_env sample_hass
       \<lparr>service = SERVICE_SET_INSTALL_MODE, data = no_data\<rparr> \<and>
   async_call_hahm_service sample_env sample_hass
       \<lparr>service = SERVICE_SET_DEVICE_VALUE, data = no_data\<rparr> =
     async_service_set_device_value sample_env sample_hass
       \<lparr>service = SERVICE_SET_DEVICE_VALUE, data = no_data\<rparr> \<and>
   async_call_hahm_service sample_env sample_hass
       \<lparr>service = SERVICE_SET_VARIABLE_VALUE, data = no_data\<rparr> =
     async_service_set_variable_value sample_env sample_hass
       \<lparr>service = SERVICE_SET_VARIABLE_VALUE, data = no_data\<rparr> \<and>
   async_call_hahm_service sample_env sample_hass \<lparr>service = ''reload'', data = no_data\<rparr> = skip"
  using
    async_call_hahm_service_one_handler
      [of "\<lparr>service = SERVICE_PUT_PARAMSET, data = no_data\<rparr>" sample_env sample_hass]
    async_call_hahm_service_one_handler
      [of "\<lparr>service = SERVICE_ENABLE_AWAY_MODE_BY_CALENDAR, data = no_data\<rparr>" sample_env sample_hass]
    async_call_hahm_service_one_handler
      [of "\<lparr>service = SERVICE_DISABLE_AWAY_MODE, data = no_data\<rparr>" sample_env sample_hass]
    async_call_hahm_service_one_handler
      [of "\<lparr>service = SERVICE_SET_INSTALL_MODE, data = no_data\<rparr>" sample_env sample_hass]
    async_call_hahm_service_one_handler
      [of "\<lparr>service = SERVICE_SET_DEVICE_VALUE, data = no_data\<rparr>" sample_env sample_hass]
    async_call_hahm_service_one_handler
      [of "\<lparr>service = SERVICE_SET_VARIABLE_VALUE, data = no_data\<rparr>" sample_env sample_hass]
    async_call_hahm_service_one_handler
      [of "\<lparr>service = ''reload'', data = no_data\<rparr>" sample_env sample_hass]
  by (simp add: service_names)

subsection \<open>Routing\<close>

text \<open>
  C3. \<open>_get_interface_channel_address\<close> returns \<open>None\<close> for a device id the registry
  does not know and for identifiers that yield no pair of address and interface;
  otherwise it returns the interface id and the device address followed by a colon and
  the channel. For the address \<open>ADDR\<close> and channel 1 the channel address is \<open>ADDR:1\<close>.
\<close>

theorem get_interface_channel_address_result:
  "(device_registry hass device_id = None \<longrightarrow>
      get_interface_channel_address E hass device_id channel = None) \<and>
   (\<forall>device_entry. device_registry hass device_id = Some device_entry \<and>
      get_device_address_at_interface_from_identifiers E (identifiers device_entry) = None \<longrightarrow>
      get_interface_channel_address E hass device_id channel = None) \<and>
   (\<forall>device_entry device_address interface_id.
      device_registry hass device_id = Some device_entry \<and>
      get_device_address_at_interface_from_identifiers E (identifiers device_entry) =
        Some (device_address, interface_id) \<longrightarrow>
      get_interface_channel_address E hass device_id channel =
        Some (interface_id, device_address @ '':'' @ str_int channel) \<and>
      get_interface_channel_address E hass device_id DEFAULT_CHANNEL =
        Some (interface_id, device_address @ '':1'')) \<and>
   (\<forall>device_entry interface_id.
      device_registry hass device_id = Some device_entry \<and>
      get_device_address_at_interface_from_identifiers E (identifiers device_entry) =
        Some (''ADDR'', interface_id) \<longrightarrow>
      get_interface_channel_address E hass device_id 1 = Some (interface_id, ''ADDR:1''))"
proof -
  have one: "str_int 1 = ''1''"
    by (simp add: str_int_def str_nat.simps digit_char_def)
  show ?thesis
    by (simp add: get_interface_channel_address_def DEFAULT_CHANNEL_def one)
qed

theorem get_interface_channel_address_result_witness:
  "device_registry sample_hass ''other'' = None \<and>
   get_interface_channel_address sample_env sample_hass ''other'' 1 = None \<and>
   device_registry sample_hass ''dev1'' = Some \<lparr>identifiers = {(''hahm'', ''ADDR@BidCos-RF'')}\<rparr> \<and>
   get_device_address_at_interface_from_identifiers sample_env {(''hahm'', ''ADDR@BidCos-RF'')} =
     Some (''ADDR'', ''BidCos-RF'') \<and>
   get_interface_channel_address sample_env sample_hass ''dev1'' 1 =
     Some (''BidCos-RF'', ''ADDR:1'') \<and>
   get_device_address_at_interface_from_identifiers sample_env {(''hahm'', ''unknown'')} = None \<and>
   get_interface_channel_address sample_env
     (sample_hass\<lparr>device_registry := (\<lambda>device_id. Some \<lparr>identifiers = {(''hahm'', ''unknown'')}\<rparr>)\<rparr>)
     ''dev2'' 1 = None"
proof -
  let ?hass2 =
    "sample_hass\<lparr>device_registry := (\<lambda>device_id. Some \<lparr>identifiers = {(''hahm'', ''unknown'')}\<rparr>)\<rparr>"
  have a: "device_registry sample_hass ''other'' = None"
    by (simp add: sample_hass_def)
  have b: "device_registry sample_hass ''dev1'' =
      Some \<lparr>identifiers = {(''hahm'', ''ADDR@BidCos-RF'')}\<rparr>"
    by (simp add: sample_hass_def)
  have c: "get_device_address_at_interface_from_identifiers sample_env
      (identifiers \<lparr>identifiers = {(''hahm'', ''ADDR@BidCos-RF'')}\<rparr>) =
      Some (''ADDR'', ''BidCos-RF'')"
    by (simp add: sample_env_def)
  have d: "device_registry ?hass2 ''dev2'' = Some \<lparr>identifiers = {(''hahm'', ''unknown'')}\<rparr>"
    by simp
  have e: "get_device_address_at_interface_from_identifiers sample_env
      (identifiers \<lparr>identifiers = {(''hahm'', ''unknown'')}\<rparr>) = None"
    by (simp add: sample_env_def)
  from a get_interface_channel_address_result [of sample_hass "''other''" sample_env 1]
  have 1: "get_interface_channel_address sample_env sample_hass ''other'' 1 = None"
    by blast
  from b c get_interface_channel_address_result [of sample_hass "''dev1''" sample_env 1]
  have 2: "get_interface_channel_address sample_env sample_hass ''dev1'' 1 =
      Some (''BidCos-RF'', ''ADDR:1'')"
    by blast
  from d e get_interface_channel_address_result [of ?hass2 "''dev2''" sample_env 1]
  have 3: "get_interface_channel_address sample_env ?hass2 ''dev2'' 1 = None"
    by blast
  from a b c e 1 2 3 show ?thesis by simp
qed

subsection \<open>Conversion of the value\<close>

text \<open>
  C4. \<open>set_device_value\<close> converts the value by its value type before anything else:
  \<open>int\<close> parses an integer (\<open>5\<close> from the text \<open>5\<close>), \<open>double\<close> parses a float
  (\<open>3.5\<close>), \<open>boolean\<close> takes the truth value, \<open>dateTime.iso8601\<close> parses with the
  pattern \<open>%Y%m%dT%H:%M:%S\<close>, every other value type the schema lets through (any
  that is not empty) casts to a string, and without a value type the value stays as it
  is. The handler then goes on as if it had been called with the converted value and no
  value type.
\<close>

theorem convert_value_by_value_type:
  "convert_value E (Some ''int'') v = map_sum id PyInt (py_int E v) \<and>
   convert_value E (Some ''double'') v = map_sum id PyFloat (py_float E v) \<and>
   convert_value E (Some ''boolean'') v = Inr (PyBool (py_bool v)) \<and>
   convert_value E (Some ''dateTime.iso8601'') v =
     map_sum id PyDateTime (strptime E v ''%Y%m%dT%H:%M:%S'') \<and>
   (vt \<noteq> [] \<and> vt \<notin> {''int'', ''double'', ''boolean'', ''dateTime.iso8601''} \<longrightarrow>
      convert_value E (Some vt) v = map_sum id PyStr (py_str E v)) \<and>
   convert_value E None v = Inr v \<and>
   (int_of_str E ''5'' = Inr 5 \<longrightarrow>
      convert_value E (Some ''int'') (PyStr ''5'') = Inr (PyInt 5)) \<and>
   (float_of_str E ''3.5'' = Inr 3.5 \<longrightarrow>
      convert_value E (Some ''double'') (PyStr ''3.5'') = Inr (PyFloat 3.5)) \<and>
   (strptime_str E ''20220101T10:00:00'' ''%Y%m%dT%H:%M:%S'' = Inr (DateTime 2022 1 1 10 0 0) \<longrightarrow>
      convert_value E (Some ''dateTime.iso8601'') (PyStr ''20220101T10:00:00'') =
        Inr (PyDateTime (DateTime 2022 1 1 10 0 0))) \<and>
   (\<forall>v'. d_value (data call) = Some v \<and>
      convert_value E (d_value_type (data call)) v = Inr v' \<longrightarrow>
      async_service_set_device_value E hass call =
        async_service_set_device_value E hass
          (call\<lparr>data := (data call)\<lparr>d_value := Some v', d_value_type := None\<rparr>\<rparr>))"
proof -
  have handler: "async_service_set_device_value E hass call =
      async_service_set_device_value E hass
        (call\<lparr>data := (data call)\<lparr>d_value := Some v', d_value_type := None\<rparr>\<rparr>)"
    if "d_value (data call) = Some v" "convert_value E (d_value_type (data call)) v = Inr v'"
    for v'
  proof -
    have "convert_value E None v' = Inr v'"
      by (simp add: convert_value_def)
    with that show ?thesis
      by (simp add: async_service_set_device_value_def required_def
          split: option.split)
  qed
  have rest: "convert_value E (Some ''int'') v = map_sum id PyInt (py_int E v) \<and>
   convert_value E (Some ''double'') v = map_sum id PyFloat (py_float E v) \<and>
   convert_value E (Some ''boolean'') v = Inr (PyBool (py_bool v)) \<and>
   convert_value E (Some ''dateTime.iso8601'') v =
     map_sum id PyDateTime (strptime E v ''%Y%m%dT%H:%M:%S'') \<and>
   (vt \<noteq> [] \<and> vt \<notin> {''int'', ''double'', ''boolean'', ''dateTime.iso8601''} \<longrightarrow>
      convert_value E (Some vt) v = map_sum id PyStr (py_str E v)) \<and>
   convert_value E None v = Inr v \<and>
   (int_of_str E ''5'' = Inr 5 \<longrightarrow>
      convert_value E (Some ''int'') (PyStr ''5'') = Inr (PyInt 5)) \<and>
   (float_of_str E ''3.5'' = Inr 3.5 \<longrightarrow>
      convert_value E (Some ''double'') (PyStr ''3.5'') = Inr (PyFloat 3.5)) \<and>
   (strptime_str E ''20220101T10:00:00'' ''%Y%m%dT%H:%M:%S'' = Inr (DateTime 2022 1 1 10 0 0) \<longrightarrow>
      convert_value E (Some ''dateTime.iso8601'') (PyStr ''20220101T10:00:00'') =
        Inr (PyDateTime (DateTime 2022 1 1 10 0 0)))"
    by (simp add: convert_value_def py_int_def py_float_def strptime_def)
  from rest handler show ?thesis by blast
qed

theorem convert_value_by_value_type_witness:
  "convert_value sample_env (Some ''int'') (PyStr ''5'') = Inr (PyInt 5) \<and>
   convert_value sample_env (Some ''double'') (PyStr ''3.5'') = Inr (PyFloat 3.5) \<and>
   convert_value sample_env (Some ''boolean'') (PyStr ''no'') = Inr (PyBool True) \<and>
   convert_value sample_env (Some ''dateTime.iso8601'') (PyStr ''20220101T10:00:00'') =
     Inr (PyDateTime (DateTime 2022 1 1 10 0 0)) \<and>
   convert_value sample_env (Some ''string'') (PyInt 5) = Inr (PyStr ''5'') \<and>
   convert_value sample_env None (PyStr ''5'') = Inr (PyStr ''5'') \<and>
   async_service_set_device_value sample_env sample_hass
     \<lparr>service = SERVICE_SET_DEVICE_VALUE,
      data = no_data\<lparr>d_device_id := Some ''dev1'', d_channel := Some 1,
               d_parameter := Some ''LEVEL'', d_value := Some (PyStr ''5''),
               d_value_type := Some ''int''\<rparr>\<rparr> =
   async_service_set_device_value sample_env sample_hass
     \<lparr>service = SERVICE_SET_DEVICE_VALUE,
      data = no_data\<lparr>d_device_id := Some ''dev1'', d_channel := Some 1,
               d_parameter := Some ''LEVEL'', d_value := Some (PyInt 5),
               d_value_type := None\<rparr>\<rparr>"
proof -
  let ?call = "\<lparr>service = SERVICE_SET_DEVICE_VALUE,
      data = no_data\<lparr>d_device_id := Some ''dev1'', d_channel := Some 1,
               d_parameter := Some ''LEVEL'', d_value := Some (PyStr ''5''),
               d_value_type := Some ''int''\<rparr>\<rparr>"
  have s: "''string'' \<noteq> [] \<and> ''string'' \<notin> {''int'', ''double'', ''boolean'', ''dateTime.iso8601''}"
    by simp
  have five: "str_int 5 = ''5''"
    by (simp add: str_int_def str_nat.simps digit_char_def)
  note inst = convert_value_by_value_type [where E = sample_env and vt = "''string''"
      and hass = sample_hass and call = ?call]
  from inst [where v = "PyStr ''5''"] sample_int_5
  have 1: "convert_value sample_env (Some ''int'') (PyStr ''5'') = Inr (PyInt 5)"
    and 6: "convert_value sample_env None (PyStr ''5'') = Inr (PyStr ''5'')"
    by blast+
  from inst [where v = "PyStr ''3.5''"] sample_float_3_5
  have 2: "convert_value sample_env (Some ''double'') (PyStr ''3.5'') = Inr (PyFloat 3.5)"
    by blast
  from inst [where v = "PyStr ''no''"]
  have 3: "convert_value sample_env (Some ''boolean'') (PyStr ''no'') = Inr (PyBool True)"
    by (simp add: py_bool_def)
  from inst [where v = "PyStr ''20220101T10:00:00''"] sample_strptime
  have 4: "convert_value sample_env (Some ''dateTime.iso8601'') (PyStr ''20220101T10:00:00'') =
      Inr (PyDateTime (DateTime 2022 1 1 10 0 0))"
    by blast
  from inst [where v = "PyInt 5"] s
  have 5: "convert_value sample_env (Some ''string'') (PyInt 5) = Inr (PyStr ''5'')"
    by (simp add: py_str_def five)
  have "d_value (data ?call) = Some (PyStr ''5'') \<and>
      convert_value sample_env (d_value_type (data ?call)) (PyStr ''5'') = Inr (PyInt 5)"
    using 1 by simp
  with inst [where v = "PyStr ''5''"]
  have "async_service_set_device_value sample_env sample_hass ?call =
      async_service_set_device_value sample_env sample_hass
        (?call\<lparr>data := (data ?call)\<lparr>d_value := Some (PyInt 5), d_value_type := None\<rparr>\<rparr>)"
    by blast
  then have 7: "async_service_set_device_value sample_env sample_hass ?call =
      async_service_set_device_value sample_env sample_hass
        \<lparr>service = SERVICE_SET_DEVICE_VALUE,
         data = no_data\<lparr>d_device_id := Some ''dev1'', d_channel := Some 1,
               d_parameter := Some ''LEVEL'', d_value := Some (PyInt 5),
               d_value_type := None\<rparr>\<rparr>"
    by simp
  from 1 2 3 4 5 6 7 show ?thesis by blast
qed

subsection \<open>From the route to the backend\<close>

lemma get_cu_by_interface_id_None:
  "get_cu_by_interface_id hass interface_id = None \<longleftrightarrow>
     \<not> list_ex (\<lambda>control_unit. interface_id \<in> set (clients (central control_unit)))
         (map snd (data_domain hass))"
  by (simp add: get_cu_by_interface_id_def find_None_iff list_ex_iff)

lemma get_cu_by_interface_id_Some:
  "get_cu_by_interface_id hass interface_id = Some control_unit \<Longrightarrow>
     control_unit \<in> snd ` set (data_domain hass) \<and>
     interface_id \<in> set (clients (central control_unit))"
  by (auto simp: get_cu_by_interface_id_def find_Some_iff)

lemma channel_address_not_empty:
  "get_interface_channel_address E hass device_id channel = Some address_data \<Longrightarrow>
     snd address_data \<noteq> []"
  by (auto simp: get_interface_channel_address_def Let_def split: option.splits)

lemma set_device_value_routed:
  assumes "d_device_id (data call) = Some device_id" "d_channel (data call) = Some channel"
    "d_parameter (data call) = Some parameter" "d_value (data call) = Some val"
    "convert_value E (d_value_type (data call)) val = Inr val'"
  shows "async_service_set_device_value E hass call tr =
    (if has_route E hass device_id channel
     then
       (let address_data = the (get_interface_channel_address E hass device_id channel);
            control_unit = the (get_cu_by_interface_id hass (fst address_data));
            c = SetValue (instance_name (central control_unit)) (fst address_data)
                  (snd address_data) parameter val' (d_rx_mode (data call))
        in (tr @ [Call c], raises E tr c))
     else (tr, None))"
proof (cases "get_interface_channel_address E hass device_id channel")
  case None
  with assms show ?thesis
    by (simp add: async_service_set_device_value_def required_def has_route_def skip_def Let_def)
next
  case (Some address_data)
  note ca = channel_address_not_empty [OF Some]
  show ?thesis
  proof (cases "get_cu_by_interface_id hass (fst address_data)")
    case None
    with assms Some ca show ?thesis
      using get_cu_by_interface_id_None [of hass "fst address_data"]
      by (simp add: async_service_set_device_value_def required_def has_route_def skip_def Let_def)
  next
    case (Some control_unit)
    with assms \<open>get_interface_channel_address E hass device_id channel = Some address_data\<close> ca
    show ?thesis
      using get_cu_by_interface_id_None [of hass "fst address_data"]
      by (simp add: async_service_set_device_value_def required_def has_route_def skip_def Let_def
          await_call_def)
  qed
qed

lemma put_paramset_routed:
  assumes "d_device_id (data call) = Some device_id" "d_channel (data call) = Some channel"
    "d_paramset_key (data call) = Some paramset_key" "d_paramset (data call) = Some paramset"
  shows "async_service_put_paramset E hass call tr =
    (if has_route E hass device_id channel
     then
       (let address_data = the (get_interface_channel_address E hass device_id channel);
            control_unit = the (get_cu_by_interface_id hass (fst address_data));
            c = PutParamset (instance_name (central control_unit)) (fst address_data)
                  (snd address_data) paramset_key paramset (d_rx_mode (data call))
        in (tr @ [Call c], raises E tr c))
     else (tr, None))"
proof (cases "get_interface_channel_address E hass device_id channel")
  case None
  with assms show ?thesis
    by (simp add: async_service_put_paramset_def required_def has_route_def skip_def)
next
  case (Some address_data)
  note ca = channel_address_not_empty [OF Some]
  show ?thesis
  proof (cases "get_cu_by_interface_id hass (fst address_data)")
    case None
    with assms Some ca show ?thesis
      using get_cu_by_interface_id_None [of hass "fst address_data"]
      by (simp add: async_service_put_paramset_def required_def has_route_def skip_def Let_def)
  next
    case (Some control_unit)
    with assms \<open>get_interface_channel_address E hass device_id channel = Some address_data\<close> ca
    show ?thesis
      using get_cu_by_interface_id_None [of hass "fst address_data"]
      by (simp add: async_service_put_paramset_def required_def has_route_def skip_def
          await_call_def Let_def)
  qed
qed

lemma has_route_unit:
  assumes "has_route E hass device_id channel"
  obtains address_data control_unit where
    "get_interface_channel_address E hass device_id channel = Some address_data"
    "get_cu_by_interface_id hass (fst address_data) = Some control_unit"
    "control_unit \<in> snd ` set (data_domain hass)"
    "fst address_data \<in> set (clients (central control_unit))"
proof -
  from assms obtain address_data where
    a: "get_interface_channel_address E hass device_id channel = Some address_data"
    and b: "list_ex (\<lambda>control_unit. fst address_data \<in> set (clients (central control_unit)))
      (map snd (data_domain hass))"
    by (auto simp: has_route_def split: option.splits)
  from b obtain control_unit where
    c: "get_cu_by_interface_id hass (fst address_data) = Some control_unit"
    using get_cu_by_interface_id_None [of hass "fst address_data"] by auto
  from get_cu_by_interface_id_Some [OF c] a c that show thesis by blast
qed

lemma has_route_iff:
  "has_route E hass device_id channel \<longleftrightarrow>
     (\<exists>interface_id channel_address.
        get_interface_channel_address E hass device_id channel =
          Some (interface_id, channel_address) \<and>
        interface_id \<noteq> [] \<and>
        (\<exists>control_unit \<in> snd ` set (data_domain hass).
           interface_id \<in> set (clients (central control_unit))))"
  by (auto simp: has_route_def list_ex_iff split: option.splits)

text \<open>
  C2, as amended. For a \<open>put_paramset\<close> call, and for a \<open>set_device_value\<close> call whose
  value converts, the backend operation is called, once and with the resolved interface
  id and channel address, if and only if the call has a route: the device id resolves,
  the interface id is not empty and some control unit has a client for it. Without a
  route the handler returns, with no backend call and no exception. A
  \<open>set_device_value\<close> call whose conversion raises ends with that exception, before
  the device is looked up.
\<close>

theorem backend_invoked_iff_has_route:
  "(d_device_id (data call) = Some device_id \<and> d_channel (data call) = Some channel \<and>
    d_parameter (data call) = Some parameter \<and> d_value (data call) = Some val \<longrightarrow>
      (\<forall>e. convert_value E (d_value_type (data call)) val = Inl e \<longrightarrow>
         async_service_set_device_value E hass call tr = (tr, Some e)) \<and>
      (\<forall>val'. convert_value E (d_value_type (data call)) val = Inr val' \<longrightarrow>
         (has_route E hass device_id channel \<longrightarrow>
            (\<exists>control_unit interface_id channel_address.
               get_interface_channel_address E hass device_id channel =
                 Some (interface_id, channel_address) \<and>
               control_unit \<in> snd ` set (data_domain hass) \<and>
               interface_id \<in> set (clients (central control_unit)) \<and>
               async_service_set_device_value E hass call tr =
                 (tr @ [Call (SetValue (instance_name (central control_unit)) interface_id
                           channel_address parameter val' (d_rx_mode (data call)))],
                  raises E tr (SetValue (instance_name (central control_unit)) interface_id
                           channel_address parameter val' (d_rx_mode (data call)))))) \<and>
         (\<not> has_route E hass device_id channel \<longrightarrow>
            async_service_set_device_value E hass call tr = (tr, None)))) \<and>
   (d_device_id (data call) = Some device_id \<and> d_channel (data call) = Some channel \<and>
    d_paramset_key (data call) = Some paramset_key \<and> d_paramset (data call) = Some paramset \<longrightarrow>
      (has_route E hass device_id channel \<longrightarrow>
         (\<exists>control_unit interface_id channel_address.
            get_interface_channel_address E hass device_id channel =
              Some (interface_id, channel_address) \<and>
            control_unit \<in> snd ` set (data_domain hass) \<and>
            interface_id \<in> set (clients (central control_unit)) \<and>
            async_service_put_paramset E hass call tr =
              (tr @ [Call (PutParamset (instance_name (central control_unit)) interface_id
                        channel_address paramset_key paramset (d_rx_mode (data call)))],
               raises E tr (PutParamset (instance_name (central control_unit)) interface_id
                        channel_address paramset_key paramset (d_rx_mode (data call)))))) \<and>
      (\<not> has_route E hass device_id channel \<longrightarrow>
         async_service_put_paramset E hass call tr = (tr, None)))"
proof (intro conjI impI allI)
  fix e
  assume "d_device_id (data call) = Some device_id \<and> d_channel (data call) = Some channel \<and>
    d_parameter (data call) = Some parameter \<and> d_value (data call) = Some val"
    and "convert_value E (d_value_type (data call)) val = Inl e"
  then show "async_service_set_device_value E hass call tr = (tr, Some e)"
    by (simp add: async_service_set_device_value_def required_def raise_exc_def)
next
  fix val'
  assume keys: "d_device_id (data call) = Some device_id \<and> d_channel (data call) = Some channel \<and>
    d_parameter (data call) = Some parameter \<and> d_value (data call) = Some val"
    and conv: "convert_value E (d_value_type (data call)) val = Inr val'"
  note run = set_device_value_routed [of call device_id channel parameter val E val' hass tr]
  {
    assume route: "has_route E hass device_id channel"
    from route obtain address_data control_unit where
      "get_interface_channel_address E hass device_id channel = Some address_data"
      "get_cu_by_interface_id hass (fst address_data) = Some control_unit"
      "control_unit \<in> snd ` set (data_domain hass)"
      "fst address_data \<in> set (clients (central control_unit))"
      by (rule has_route_unit)
    with run keys conv route
    show "\<exists>control_unit interface_id channel_address.
        get_interface_channel_address E hass device_id channel =
          Some (interface_id, channel_address) \<and>
        control_unit \<in> snd ` set (data_domain hass) \<and>
        interface_id \<in> set (clients (central control_unit)) \<and>
        async_service_set_device_value E hass call tr =
          (tr @ [Call (SetValue (instance_name (central control_unit)) interface_id
                    channel_address parameter val' (d_rx_mode (data call)))],
           raises E tr (SetValue (instance_name (central control_unit)) interface_id
                    channel_address parameter val' (d_rx_mode (data call))))"
      by (intro exI [of _ control_unit] exI [of _ "fst address_data"]
          exI [of _ "snd address_data"]) (simp add: Let_def)
  }
  {
    assume "\<not> has_route E hass device_id channel"
    with run keys conv show "async_service_set_device_value E hass call tr = (tr, None)"
      by simp
  }
next
  assume keys: "d_device_id (data call) = Some device_id \<and> d_channel (data call) = Some channel \<and>
    d_paramset_key (data call) = Some paramset_key \<and> d_paramset (data call) = Some paramset"
  note run = put_paramset_routed [of call device_id channel paramset_key paramset E hass tr]
  {
    assume route: "has_route E hass device_id channel"
    from route obtain address_data control_unit where
      "get_interface_channel_address E hass device_id channel = Some address_data"
      "get_cu_by_interface_id hass (fst address_data) = Some control_unit"
      "control_unit \<in> snd ` set (data_domain hass)"
      "fst address_data \<in> set (clients (central control_unit))"
      by (rule has_route_unit)
    with run keys route
    show "\<exists>control_unit interface_id channel_address.
        get_interface_channel_address E hass device_id channel =
          Some (interface_id, channel_address) \<and>
        control_unit \<in> snd ` set (data_domain hass) \<and>
        interface_id \<in> set (clients (central control_unit)) \<and>
        async_service_put_paramset E hass call tr =
          (tr @ [Call (PutParamset (instance_name (central control_unit)) interface_id
                    channel_address paramset_key paramset (d_rx_mode (data call)))],
           raises E tr (PutParamset (instance_name (central control_unit)) interface_id
                    channel_address paramset_key paramset (d_rx_mode (data call))))"
      by (intro exI [of _ control_unit] exI [of _ "fst address_data"]
          exI [of _ "snd address_data"]) (simp add: Let_def)
  }
  {
    assume "\<not> has_route E hass device_id channel"
    with run keys show "async_service_put_paramset E hass call tr = (tr, None)"
      by simp
  }
qed

theorem backend_invoked_iff_has_route_witness:
  "has_route sample_env sample_hass ''dev1'' 1 \<and>
   async_service_set_device_value sample_env sample_hass
     \<lparr>service = SERVICE_SET_DEVICE_VALUE,
      data = no_data\<lparr>d_device_id := Some ''dev1'', d_channel := Some 1,
               d_parameter := Some ''LEVEL'', d_value := Some (PyStr ''5''),
               d_value_type := Some ''int''\<rparr>\<rparr> [] =
     ([Call (SetValue ''ccu'' ''BidCos-RF'' ''ADDR:1'' ''LEVEL'' (PyInt 5) None)], None) \<and>
   async_service_put_paramset sample_env sample_hass
     \<lparr>service = SERVICE_PUT_PARAMSET,
      data = no_data\<lparr>d_device_id := Some ''dev1'', d_channel := Some 1,
               d_paramset_key := Some ''MASTER'',
               d_paramset := Some [(''TEMPERATURE_OFFSET'', PyInt 2)]\<rparr>\<rparr> [] =
     ([Call (PutParamset ''ccu'' ''BidCos-RF'' ''ADDR:1'' ''MASTER''
               [(''TEMPERATURE_OFFSET'', PyInt 2)] None)], None) \<and>
   \<not> has_route sample_env sample_hass ''nodev'' 1 \<and>
   async_service_set_device_value sample_env sample_hass
     \<lparr>service = SERVICE_SET_DEVICE_VALUE,
      data = no_data\<lparr>d_device_id := Some ''nodev'', d_channel := Some 1,
               d_parameter := Some ''LEVEL'', d_value := Some (PyStr ''5''),
               d_value_type := Some ''int''\<rparr>\<rparr> [] = ([], None) \<and>
   async_service_put_paramset sample_env sample_hass
     \<lparr>service = SERVICE_PUT_PARAMSET,
      data = no_data\<lparr>d_device_id := Some ''nodev'', d_channel := Some 1,
               d_paramset_key := Some ''MASTER'',
               d_paramset := Some [(''TEMPERATURE_OFFSET'', PyInt 2)]\<rparr>\<rparr> [] = ([], None) \<and>
   async_service_set_device_value sample_env sample_hass
     \<lparr>service = SERVICE_SET_DEVICE_VALUE,
      data = no_data\<lparr>d_device_id := Some ''dev1'', d_channel := Some 1,
               d_parameter := Some ''LEVEL'', d_value := Some (PyStr ''abc''),
               d_value_type := Some ''int''\<rparr>\<rparr> [] = ([], Some ValueError)"
proof -
  let ?set = "\<lambda>dev v. \<lparr>service = SERVICE_SET_DEVICE_VALUE,
      data = no_data\<lparr>d_device_id := Some dev, d_channel := Some 1,
               d_parameter := Some ''LEVEL'', d_value := Some (PyStr v),
               d_value_type := Some ''int''\<rparr>\<rparr>"
  let ?put = "\<lambda>dev. \<lparr>service = SERVICE_PUT_PARAMSET,
      data = no_data\<lparr>d_device_id := Some dev, d_channel := Some 1,
               d_paramset_key := Some ''MASTER'',
               d_paramset := Some [(''TEMPERATURE_OFFSET'', PyInt 2)]\<rparr>\<rparr>"
  have route: "has_route sample_env sample_hass ''dev1'' 1"
    by (simp add: has_route_def sample_route_dev1) (simp add: sample_hass_def sample_unit_def)
  have no_route: "\<not> has_route sample_env sample_hass ''nodev'' 1"
    by (simp add: has_route_def sample_route_nodev)
  have units: "snd ` set (data_domain sample_hass) = {sample_unit}"
    by (simp add: sample_hass_def)
  have name: "instance_name (central sample_unit) = ''ccu''"
    by (simp add: sample_unit_def)
  have quiet: "raises sample_env tr c = None" for tr c
    by (simp add: sample_env_def)
  have conv5: "convert_value sample_env (Some ''int'') (PyStr ''5'') = Inr (PyInt 5)"
    by (simp add: convert_value_def py_int_def sample_int_5)
  have conv_abc: "convert_value sample_env (Some ''int'') (PyStr ''abc'') = Inl ValueError"
    by (simp add: convert_value_def py_int_def sample_int_abc)
  have 1: "async_service_set_device_value sample_env sample_hass (?set ''dev1'' ''5'') [] =
      ([Call (SetValue ''ccu'' ''BidCos-RF'' ''ADDR:1'' ''LEVEL'' (PyInt 5) None)], None)"
    using backend_invoked_iff_has_route
      [of "?set ''dev1'' ''5''" "''dev1''" 1 "''LEVEL''" "PyStr ''5''" sample_env sample_hass "[]"]
      route conv5 sample_route_dev1 units name quiet
    by (simp add: no_data_def)
  have 2: "async_service_put_paramset sample_env sample_hass (?put ''dev1'') [] =
      ([Call (PutParamset ''ccu'' ''BidCos-RF'' ''ADDR:1'' ''MASTER''
               [(''TEMPERATURE_OFFSET'', PyInt 2)] None)], None)"
    using backend_invoked_iff_has_route
      [of "?put ''dev1''" "''dev1''" 1 _ _ sample_env sample_hass "[]" "''MASTER''"
          "[(''TEMPERATURE_OFFSET'', PyInt 2)]"]
      route sample_route_dev1 units name quiet
    by (simp add: no_data_def)
  have 3: "async_service_set_device_value sample_env sample_hass (?set ''nodev'' ''5'') [] =
      ([], None)"
    using backend_invoked_iff_has_route
      [of "?set ''nodev'' ''5''" "''nodev''" 1 "''LEVEL''" "PyStr ''5''" sample_env sample_hass "[]"]
      no_route conv5
    by (simp add: no_data_def)
  have 4: "async_service_put_paramset sample_env sample_hass (?put ''nodev'') [] = ([], None)"
    using backend_invoked_iff_has_route
      [of "?put ''nodev''" "''nodev''" 1 _ _ sample_env sample_hass "[]" "''MASTER''"
          "[(''TEMPERATURE_OFFSET'', PyInt 2)]"]
      no_route
    by (simp add: no_data_def)
  have 5: "async_service_set_device_value sample_env sample_hass (?set ''dev1'' ''abc'') [] =
      ([], Some ValueError)"
    using backend_invoked_iff_has_route
      [of "?set ''dev1'' ''abc''" "''dev1''" 1 "''LEVEL''" "PyStr ''abc''" sample_env sample_hass "[]"]
      conv_abc
    by (simp add: no_data_def)
  from route no_route 1 2 3 4 5 show ?thesis by simp
qed

text \<open>
  The claim as stated fails at two calls. A \<open>set_device_value\<close> call with the value
  \<open>abc\<close> and the value type \<open>int\<close> for an unknown device raises \<open>ValueError\<close>, where
  the claim has the handler return without an exception. A \<open>put_paramset\<close> call whose
  device resolves to the empty interface id is not passed on, although a control unit has
  a client under that id: \<open>if interface_id and channel_address\<close> stops it.
\<close>

theorem set_device_value_raises_without_route:
  "get_interface_channel_address sample_env sample_hass ''nodev'' 1 = None \<and>
   async_service_set_device_value sample_env sample_hass
     \<lparr>service = SERVICE_SET_DEVICE_VALUE,
      data = no_data\<lparr>d_device_id := Some ''nodev'', d_channel := Some 1,
               d_parameter := Some ''LEVEL'', d_value := Some (PyStr ''abc''),
               d_value_type := Some ''int''\<rparr>\<rparr> [] = ([], Some ValueError) \<and>
   get_interface_channel_address
     (sample_env\<lparr>get_device_address_at_interface_from_identifiers :=
        (\<lambda>ids. Some (''ADDR'', ''''))\<rparr>)
     sample_hass ''dev1'' 1 = Some ('''', ''ADDR:1'') \<and>
   '''' \<in> set (clients (central
     (sample_unit\<lparr>central := \<lparr>instance_name = ''ccu'', clients = ['''']\<rparr>\<rparr>))) \<and>
   async_service_put_paramset
     (sample_env\<lparr>get_device_address_at_interface_from_identifiers :=
        (\<lambda>ids. Some (''ADDR'', ''''))\<rparr>)
     (sample_hass\<lparr>data_domain :=
        [(''entry1'', sample_unit\<lparr>central := \<lparr>instance_name = ''ccu'', clients = ['''']\<rparr>\<rparr>)]\<rparr>)
     \<lparr>service = SERVICE_PUT_PARAMSET,
      data = no_data\<lparr>d_device_id := Some ''dev1'', d_channel := Some 1,
               d_paramset_key := Some ''MASTER'',
               d_paramset := Some [(''TEMPERATURE_OFFSET'', PyInt 2)]\<rparr>\<rparr> [] = ([], None)"
proof -
  have abc: "convert_value sample_env (Some ''int'') (PyStr ''abc'') = Inl ValueError"
    by (simp add: convert_value_def py_int_def sample_int_abc)
  have a: "async_service_set_device_value sample_env sample_hass
     \<lparr>service = SERVICE_SET_DEVICE_VALUE,
      data = no_data\<lparr>d_device_id := Some ''nodev'', d_channel := Some 1,
               d_parameter := Some ''LEVEL'', d_value := Some (PyStr ''abc''),
               d_value_type := Some ''int''\<rparr>\<rparr> [] = ([], Some ValueError)"
    by (simp add: async_service_set_device_value_def required_def no_data_def abc raise_exc_def)
  have b: "get_interface_channel_address
     (sample_env\<lparr>get_device_address_at_interface_from_identifiers :=
        (\<lambda>ids. Some (''ADDR'', ''''))\<rparr>) h ''dev1'' 1 = Some ('''', ''ADDR:1'')"
    if "device_registry h = device_registry sample_hass" for h
    using that by (simp add: get_interface_channel_address_def sample_hass_def str_int_1)
  have c: "async_service_put_paramset
     (sample_env\<lparr>get_device_address_at_interface_from_identifiers :=
        (\<lambda>ids. Some (''ADDR'', ''''))\<rparr>)
     (sample_hass\<lparr>data_domain :=
        [(''entry1'', sample_unit\<lparr>central := \<lparr>instance_name = ''ccu'', clients = ['''']\<rparr>\<rparr>)]\<rparr>)
     \<lparr>service = SERVICE_PUT_PARAMSET,
      data = no_data\<lparr>d_device_id := Some ''dev1'', d_channel := Some 1,
               d_paramset_key := Some ''MASTER'',
               d_paramset := Some [(''TEMPERATURE_OFFSET'', PyInt 2)]\<rparr>\<rparr> [] = ([], None)"
    by (simp add: async_service_put_paramset_def required_def no_data_def b skip_def)
  from a b [of sample_hass] c sample_route_nodev show ?thesis by simp
qed

subsection \<open>Away mode\<close>

lemma foldl_extend: "foldl (\<lambda>acc x. acc @ f x) acc xs = acc @ concat (map f xs)"
  by (induction xs arbitrary: acc) simp_all

lemma get_entities_by_platform_concat:
  "get_entities_by_platform hass platform =
     concat (map (\<lambda>control_unit. async_get_hm_entities_by_platform control_unit platform)
       (map snd (data_domain hass)))"
  by (simp add: get_entities_by_platform_def foldl_extend)

lemma enable_other:
  "\<not> isinstance_IPThermostat entity \<Longrightarrow>
     enable_away_mode_by_calendar E start finish away_temperature entity = skip"
  by (simp add: enable_away_mode_by_calendar_def)

lemma enable_thermostat:
  "isinstance_IPThermostat entity \<Longrightarrow>
     enable_away_mode_by_calendar E start finish away_temperature entity tr =
       (case raises E tr (EnableAwayModeByCalendar entity start finish away_temperature) of
          None \<Rightarrow>
            (tr @ [Call (EnableAwayModeByCalendar entity start finish away_temperature), Sleep 1],
             None)
        | Some e \<Rightarrow>
            (tr @ [Call (EnableAwayModeByCalendar entity start finish away_temperature)],
             Some e))"
  by (simp add: enable_away_mode_by_calendar_def seq_def await_call_def sleep_def
      split: option.split)

lemma enable_away_mode_run:
  assumes "for_each entities (enable_away_mode_by_calendar E start finish away_temperature) tr =
    (tr', r)"
  shows "(\<exists>rest. tr @ concat (map (\<lambda>entity.
        if isinstance_IPThermostat entity
        then [Call (EnableAwayModeByCalendar entity start finish away_temperature), Sleep 1]
        else []) entities) = tr' @ rest) \<and>
     (r = None \<longrightarrow> tr' = tr @ concat (map (\<lambda>entity.
        if isinstance_IPThermostat entity
        then [Call (EnableAwayModeByCalendar entity start finish away_temperature), Sleep 1]
        else []) entities)) \<and>
     ((\<forall>tr c. raises E tr c = None) \<longrightarrow> r = None)"
  using assms
proof (induction entities arbitrary: tr)
  case Nil
  then show ?case by (simp add: skip_def)
next
  case (Cons entity entities)
  show ?case
  proof (cases "isinstance_IPThermostat entity")
    case False
    with Cons.prems
    have "for_each entities (enable_away_mode_by_calendar E start finish away_temperature) tr =
        (tr', r)"
      by (simp add: enable_other seq_skip_left)
    from Cons.IH [OF this] False show ?thesis by simp
  next
    case True
    let ?c = "EnableAwayModeByCalendar entity start finish away_temperature"
    show ?thesis
    proof (cases "raises E tr ?c")
      case (Some e)
      with True Cons.prems have "tr' = tr @ [Call ?c]" "r = Some e"
        by (simp_all add: seq_def enable_thermostat)
      with True Some show ?thesis by auto
    next
      case None
      with True Cons.prems
      have "for_each entities (enable_away_mode_by_calendar E start finish away_temperature)
          (tr @ [Call ?c, Sleep 1]) = (tr', r)"
        by (simp add: seq_def enable_thermostat)
      from Cons.IH [OF this] True show ?thesis by simp
    qed
  qed
qed

text \<open>
  C5. \<open>enable_away_mode_by_calendar\<close> with the entity ids \<open>all\<close> goes through the
  climate entities of all control units, in the order of the control units and of each
  unit's list, each entry once: a thermostat gets the call with start, end and
  temperature and then a sleep of 1 before the next entity, any other entity nothing.
  These are the events of every run that returns, and a run returns when no backend
  call raises; a run that a raising call ends has done a first part of them.
\<close>

theorem enable_away_mode_all_visits_each_entity_once:
  assumes "d_entity_id (data call) = Some (EntityMatch ''all'')"
    and "d_away_start_time (data call) = Some start"
    and "d_away_end_time (data call) = Some finish"
    and "d_away_set_point_temperature (data call) = Some away_temperature"
    and "visits = concat (map (\<lambda>entity.
        if isinstance_IPThermostat entity
        then [Call (EnableAwayModeByCalendar entity start finish away_temperature), Sleep 1]
        else [])
      (concat (map (\<lambda>control_unit. async_get_hm_entities_by_platform control_unit CLIMATE)
         (map snd (data_domain hass)))))"
    and "async_service_enable_away_mode_by_calendar E hass call tr = (tr', r)"
  shows "(r = None \<longrightarrow> tr' = tr @ visits) \<and>
    ((\<forall>tr c. raises E tr c = None) \<longrightarrow> r = None) \<and>
    (\<exists>rest. tr @ visits = tr' @ rest)"
proof -
  from assms(1-4,6)
  have "for_each (concat (map (\<lambda>control_unit. async_get_hm_entities_by_platform control_unit CLIMATE)
         (map snd (data_domain hass))))
      (enable_away_mode_by_calendar E start finish away_temperature) tr = (tr', r)"
    by (simp add: async_service_enable_away_mode_by_calendar_def required_def
        get_entities_by_platform_concat)
  from enable_away_mode_run [OF this] assms(5) show ?thesis by simp
qed

theorem enable_away_mode_all_visits_each_entity_once_witness:
  "(\<forall>tr c. raises sample_env tr c = None) \<and>
   async_service_enable_away_mode_by_calendar sample_env
     (sample_hass\<lparr>data_domain := [(''entry1'', sample_unit), (''entry2'', sample_unit)]\<rparr>)
     \<lparr>service = SERVICE_ENABLE_AWAY_MODE_BY_CALENDAR,
      data = no_data\<lparr>d_entity_id := Some (EntityMatch ''all''),
               d_away_start_time := Some (PyDateTime (DateTime 2022 1 1 10 0 0)),
               d_away_end_time := Some (PyDateTime (DateTime 2022 1 8 10 0 0)),
               d_away_set_point_temperature := Some (PyFloat 18)\<rparr>\<rparr> [] =
   ([Call (EnableAwayModeByCalendar thermostat (PyDateTime (DateTime 2022 1 1 10 0 0))
             (PyDateTime (DateTime 2022 1 8 10 0 0)) (PyFloat 18)),
     Sleep 1,
     Call (EnableAwayModeByCalendar thermostat (PyDateTime (DateTime 2022 1 1 10 0 0))
             (PyDateTime (DateTime 2022 1 8 10 0 0)) (PyFloat 18)),
     Sleep 1], None)"
proof -
  let ?hass = "sample_hass\<lparr>data_domain := [(''entry1'', sample_unit), (''entry2'', sample_unit)]\<rparr>"
  let ?start = "PyDateTime (DateTime 2022 1 1 10 0 0)"
  let ?finish = "PyDateTime (DateTime 2022 1 8 10 0 0)"
  let ?call = "\<lparr>service = SERVICE_ENABLE_AWAY_MODE_BY_CALENDAR,
      data = no_data\<lparr>d_entity_id := Some (EntityMatch ''all''),
               d_away_start_time := Some ?start, d_away_end_time := Some ?finish,
               d_away_set_point_temperature := Some (PyFloat 18)\<rparr>\<rparr>"
  let ?visits = "concat (map (\<lambda>entity.
        if isinstance_IPThermostat entity
        then [Call (EnableAwayModeByCalendar entity ?start ?finish (PyFloat 18)), Sleep 1]
        else [])
      (concat (map (\<lambda>control_unit. async_get_hm_entities_by_platform control_unit CLIMATE)
         (map snd (data_domain ?hass)))))"
  have quiet: "\<forall>tr c. raises sample_env tr c = None"
    by (simp add: sample_env_def)
  obtain tr' r where
    run: "async_service_enable_away_mode_by_calendar sample_env ?hass ?call [] = (tr', r)"
    by (cases "async_service_enable_away_mode_by_calendar sample_env ?hass ?call []")
  have "(r = None \<longrightarrow> tr' = [] @ ?visits) \<and>
      ((\<forall>tr c. raises sample_env tr c = None) \<longrightarrow> r = None) \<and>
      (\<exists>rest. [] @ ?visits = tr' @ rest)"
    by (rule enable_away_mode_all_visits_each_entity_once [OF _ _ _ _ refl run]) simp_all
  with quiet have "r = None" "tr' = ?visits" by simp_all
  moreover have "?visits =
      [Call (EnableAwayModeByCalendar thermostat ?start ?finish (PyFloat 18)), Sleep 1,
       Call (EnableAwayModeByCalendar thermostat ?start ?finish (PyFloat 18)), Sleep 1]"
    by (simp add: sample_unit_def isinstance_IPThermostat_def switch_def thermostat_def)
  ultimately show ?thesis using run quiet by simp
qed

text \<open>
  C6. \<open>disable_away_mode\<close> on an entity id that resolves to an entity that is no
  thermostat does nothing for it: the inner coroutine returns with no event, and the
  handler behaves as if the id were not in the list; with only that id it returns with
  no event at all.
\<close>

theorem disable_away_mode_skips_other_entities:
  "\<not> isinstance_IPThermostat entity \<longrightarrow>
     disable_away_mode E entity tr = (tr, None) \<and>
     (\<forall>entity_id before after.
        get_entity hass entity_id = Some entity \<and>
        d_entity_id (data call) = Some (EntityList (before @ entity_id # after)) \<longrightarrow>
        async_service_disable_away_mode E hass call tr =
          async_service_disable_away_mode E hass
            (call\<lparr>data := (data call)\<lparr>d_entity_id := Some (EntityList (before @ after))\<rparr>\<rparr>) tr \<and>
        (before = [] \<and> after = [] \<longrightarrow>
           async_service_disable_away_mode E hass call tr = (tr, None)))"
proof (intro impI conjI allI)
  assume other: "\<not> isinstance_IPThermostat entity"
  then show "disable_away_mode E entity tr = (tr, None)"
    by (simp add: disable_away_mode_def skip_def)
  fix entity_id before after
  assume found: "get_entity hass entity_id = Some entity \<and>
    d_entity_id (data call) = Some (EntityList (before @ entity_id # after))"
  let ?body = "\<lambda>entity_id. case get_entity hass entity_id of
      Some hm_entity \<Rightarrow> disable_away_mode E hm_entity | None \<Rightarrow> skip"
  have step: "?body entity_id = skip"
    using other found by (simp add: disable_away_mode_def)
  have "for_each (before @ entity_id # after) ?body = for_each (before @ after) ?body"
    by (simp add: for_each_append step seq_skip_left)
  with found show "async_service_disable_away_mode E hass call tr =
      async_service_disable_away_mode E hass
        (call\<lparr>data := (data call)\<lparr>d_entity_id := Some (EntityList (before @ after))\<rparr>\<rparr>) tr"
    by (simp add: async_service_disable_away_mode_def required_def)
  assume "before = [] \<and> after = []"
  with found step show "async_service_disable_away_mode E hass call tr = (tr, None)"
    by (simp add: async_service_disable_away_mode_def required_def seq_skip_right skip_def)
qed

theorem disable_away_mode_skips_other_entities_witness:
  "\<not> isinstance_IPThermostat switch \<and>
   disable_away_mode failing_env switch [] = ([], None) \<and>
   get_entity sample_hass ''switch.switch'' = Some switch \<and>
   async_service_disable_away_mode failing_env sample_hass
     \<lparr>service = SERVICE_DISABLE_AWAY_MODE,
      data = no_data\<lparr>d_entity_id := Some (EntityList [''switch.switch''])\<rparr>\<rparr> [] = ([], None)"
proof -
  let ?call = "\<lparr>service = SERVICE_DISABLE_AWAY_MODE,
      data = no_data\<lparr>d_entity_id := Some (EntityList [''switch.switch''])\<rparr>\<rparr>"
  have a: "\<not> isinstance_IPThermostat switch"
    by (simp add: isinstance_IPThermostat_def switch_def)
  have b: "get_entity sample_hass ''switch.switch'' = Some switch"
    by (simp add: get_entity_def sample_hass_def sample_unit_def isinstance_BaseEntity_def
        switch_def)
  have c: "d_entity_id (data ?call) = Some (EntityList ([] @ ''switch.switch'' # []))"
    by simp
  from disable_away_mode_skips_other_entities [of switch failing_env "[]" sample_hass ?call]
    a b c
  show ?thesis by blast
qed

subsection \<open>The schema of enable_away_mode_by_calendar\<close>

text \<open>
  C7. A temperature whose float is below 4.5 or above 30.5 (40.0, say) is rejected by
  the schema: the call ends with \<open>Invalid\<close> and no event, whatever the platform's
  state, so before the service function runs. A call without a temperature, and valid
  otherwise, is passed on with the temperature 18.0.
\<close>

theorem temperature_checked_by_schema:
  "(\<forall>v r. d_away_set_point_temperature d = Some v \<and> py_float E v = Inr r \<and>
        (r < 4.5 \<or> 30.5 < r) \<longrightarrow>
      (\<exists>msg. SCHEMA_SERVICE_ENABLE_AWAY_MODE_BY_CALENDAR E d = Inl (Invalid msg) \<and>
         call_enable_away_mode_by_calendar E hass d tr = (tr, Some (Invalid msg)))) \<and>
   (d_away_set_point_temperature d = None \<and> \<not> extra_keys_enable_away_mode d \<and>
    d_entity_id d \<noteq> None \<and> d_away_start_time d \<noteq> None \<and> d_away_end_time d \<noteq> None \<longrightarrow>
      SCHEMA_SERVICE_ENABLE_AWAY_MODE_BY_CALENDAR E d =
        Inr (d\<lparr>d_away_set_point_temperature := Some (PyFloat 18.0)\<rparr>) \<and>
      call_enable_away_mode_by_calendar E hass d =
        async_service_enable_away_mode_by_calendar E hass
          \<lparr>service = SERVICE_ENABLE_AWAY_MODE_BY_CALENDAR,
           data = d\<lparr>d_away_set_point_temperature := Some (PyFloat 18.0)\<rparr>\<rparr>)"
proof (intro conjI allI impI)
  fix v r
  assume out: "d_away_set_point_temperature d = Some v \<and> py_float E v = Inr r \<and>
    (r < 4.5 \<or> 30.5 < r)"
  then have "\<exists>msg. away_set_point_temperature_validator E v = Inl (Invalid msg)"
    by (auto simp: away_set_point_temperature_validator_def vol_Coerce_float_def vol_Range_def)
  with out have "\<exists>msg. SCHEMA_SERVICE_ENABLE_AWAY_MODE_BY_CALENDAR E d = Inl (Invalid msg)"
    by (auto simp: SCHEMA_SERVICE_ENABLE_AWAY_MODE_BY_CALENDAR_def)
  then show "\<exists>msg. SCHEMA_SERVICE_ENABLE_AWAY_MODE_BY_CALENDAR E d = Inl (Invalid msg) \<and>
      call_enable_away_mode_by_calendar E hass d tr = (tr, Some (Invalid msg))"
    by (auto simp: call_enable_away_mode_by_calendar_def raise_exc_def)
next
  assume omitted: "d_away_set_point_temperature d = None \<and> \<not> extra_keys_enable_away_mode d \<and>
    d_entity_id d \<noteq> None \<and> d_away_start_time d \<noteq> None \<and> d_away_end_time d \<noteq> None"
  have default: "away_set_point_temperature_validator E (PyFloat 18.0) = Inr 18.0"
    by (simp add: away_set_point_temperature_validator_def vol_Coerce_float_def vol_Range_def
        py_float_def)
  from omitted default
  show schema: "SCHEMA_SERVICE_ENABLE_AWAY_MODE_BY_CALENDAR E d =
      Inr (d\<lparr>d_away_set_point_temperature := Some (PyFloat 18.0)\<rparr>)"
    by (simp add: SCHEMA_SERVICE_ENABLE_AWAY_MODE_BY_CALENDAR_def)
  show "call_enable_away_mode_by_calendar E hass d =
      async_service_enable_away_mode_by_calendar E hass
        \<lparr>service = SERVICE_ENABLE_AWAY_MODE_BY_CALENDAR,
         data = d\<lparr>d_away_set_point_temperature := Some (PyFloat 18.0)\<rparr>\<rparr>"
    by (simp add: call_enable_away_mode_by_calendar_def schema async_call_hahm_service_def
        call_hahm_service_def seq_skip_left seq_skip_right service_names)
qed

theorem temperature_checked_by_schema_witness:
  "py_float sample_env (PyFloat 40.0) = Inr 40.0 \<and> (30.5 :: rat) < 40.0 \<and>
   call_enable_away_mode_by_calendar sample_env sample_hass
     (no_data\<lparr>d_entity_id := Some (EntityMatch ''all''),
        d_away_start_time := Some (PyDateTime (DateTime 2022 1 1 10 0 0)),
        d_away_end_time := Some (PyDateTime (DateTime 2022 1 8 10 0 0)),
        d_away_set_point_temperature := Some (PyFloat 40.0)\<rparr>) [] =
     ([], Some (Invalid ''value must be at most max'')) \<and>
   SCHEMA_SERVICE_ENABLE_AWAY_MODE_BY_CALENDAR sample_env
     (no_data\<lparr>d_entity_id := Some (EntityMatch ''all''),
        d_away_start_time := Some (PyDateTime (DateTime 2022 1 1 10 0 0)),
        d_away_end_time := Some (PyDateTime (DateTime 2022 1 8 10 0 0))\<rparr>) =
     Inr (no_data\<lparr>d_entity_id := Some (EntityMatch ''all''),
        d_away_start_time := Some (PyDateTime (DateTime 2022 1 1 10 0 0)),
        d_away_end_time := Some (PyDateTime (DateTime 2022 1 8 10 0 0)),
        d_away_set_point_temperature := Some (PyFloat 18.0)\<rparr>)"
proof -
  let ?d = "no_data\<lparr>d_entity_id := Some (EntityMatch ''all''),
        d_away_start_time := Some (PyDateTime (DateTime 2022 1 1 10 0 0)),
        d_away_end_time := Some (PyDateTime (DateTime 2022 1 8 10 0 0))\<rparr>"
  let ?hot = "?d\<lparr>d_away_set_point_temperature := Some (PyFloat 40.0)\<rparr>"
  have float: "py_float sample_env (PyFloat 40.0) = Inr 40.0"
    by (simp add: py_float_def)
  have hot: "d_away_set_point_temperature ?hot = Some (PyFloat 40.0) \<and>
      py_float sample_env (PyFloat 40.0) = Inr 40.0 \<and> ((40.0 :: rat) < 4.5 \<or> (30.5 :: rat) < 40.0)"
    by (simp add: py_float_def)
  from temperature_checked_by_schema [of ?hot sample_env sample_hass "[]"] hot
  obtain msg where
    msg: "SCHEMA_SERVICE_ENABLE_AWAY_MODE_BY_CALENDAR sample_env ?hot = Inl (Invalid msg)"
    and rejected: "call_enable_away_mode_by_calendar sample_env sample_hass ?hot [] =
      ([], Some (Invalid msg))"
    by blast
  have "SCHEMA_SERVICE_ENABLE_AWAY_MODE_BY_CALENDAR sample_env ?hot =
      Inl (Invalid ''value must be at most max'')"
    by (simp add: SCHEMA_SERVICE_ENABLE_AWAY_MODE_BY_CALENDAR_def extra_keys_enable_away_mode_def
        no_data_def away_set_point_temperature_validator_def vol_Coerce_float_def vol_Range_def
        py_float_def)
  with msg have "msg = ''value must be at most max''" by simp
  with rejected have 1: "call_enable_away_mode_by_calendar sample_env sample_hass ?hot [] =
      ([], Some (Invalid ''value must be at most max''))" by simp
  have omitted: "d_away_set_point_temperature ?d = None \<and> \<not> extra_keys_enable_away_mode ?d \<and>
      d_entity_id ?d \<noteq> None \<and> d_away_start_time ?d \<noteq> None \<and> d_away_end_time ?d \<noteq> None"
    by (simp add: no_data_def extra_keys_enable_away_mode_def)
  from temperature_checked_by_schema [of ?d sample_env sample_hass "[]"] omitted
  have 2: "SCHEMA_SERVICE_ENABLE_AWAY_MODE_BY_CALENDAR sample_env ?d =
      Inr (?d\<lparr>d_away_set_point_temperature := Some (PyFloat 18.0)\<rparr>)"
    by blast
  from float 1 2 show ?thesis by simp
qed

subsection \<open>Exceptions of the backend\<close>

lemma propagates_skip: "propagates E skip"
  by (auto simp: propagates_def skip_def)

lemma propagates_raise_exc: "propagates E (raise_exc e)"
  by (auto simp: propagates_def raise_exc_def)

lemma propagates_sleep: "propagates E (sleep n)"
  by (auto simp: propagates_def sleep_def nth_append)

lemma propagates_await_call: "propagates E (await_call E c)"
  by (auto simp: propagates_def await_call_def nth_append less_Suc_eq)

lemma propagates_seq:
  assumes p: "propagates E p" and q: "propagates E q"
  shows "propagates E (seq p q)"
  unfolding propagates_def
proof (intro allI impI)
  fix tr tr' r
  assume run: "seq p q tr = (tr', r)"
  obtain t1 r1 where p_run: "p tr = (t1, r1)" by (cases "p tr")
  from p p_run obtain new1 where t1: "t1 = tr @ new1"
    unfolding propagates_def by blast
  from p p_run have p_calls: "\<And>i c e. length tr \<le> i \<Longrightarrow> i < length t1 \<Longrightarrow> t1 ! i = Call c \<Longrightarrow>
      raises E (take i t1) c = Some e \<Longrightarrow> r1 = Some e \<and> Suc i = length t1"
    unfolding propagates_def by blast
  show "(\<exists>new. tr' = tr @ new) \<and>
        (\<forall>i c e. length tr \<le> i \<and> i < length tr' \<and> tr' ! i = Call c \<and>
           raises E (take i tr') c = Some e \<longrightarrow> r = Some e \<and> Suc i = length tr')"
  proof (cases r1)
    case (Some e1)
    with run p_run have "tr' = t1" "r = r1" by (simp_all add: seq_def)
    with t1 p_calls show ?thesis by blast
  next
    case None
    with run p_run have q_run: "q t1 = (tr', r)" by (simp add: seq_def)
    from q q_run obtain new2 where t2: "tr' = t1 @ new2"
      unfolding propagates_def by blast
    from q q_run have q_calls: "\<And>i c e. length t1 \<le> i \<Longrightarrow> i < length tr' \<Longrightarrow> tr' ! i = Call c \<Longrightarrow>
        raises E (take i tr') c = Some e \<Longrightarrow> r = Some e \<and> Suc i = length tr'"
      unfolding propagates_def by blast
    have "r = Some e \<and> Suc i = length tr'"
      if "length tr \<le> i" "i < length tr'" "tr' ! i = Call c" "raises E (take i tr') c = Some e"
      for i c e
    proof (cases "i < length t1")
      case True
      with t2 that have "t1 ! i = Call c" "raises E (take i t1) c = Some e"
        by (simp_all add: nth_append)
      from p_calls [OF that(1) True this] None show ?thesis by simp
    next
      case False
      then have "length t1 \<le> i" by simp
      from q_calls [OF this that(2) that(3) that(4)] show ?thesis .
    qed
    with t1 t2 show ?thesis by auto
  qed
qed

lemma propagates_for_each:
  assumes "\<And>x. propagates E (body x)"
  shows "propagates E (for_each xs body)"
  by (induction xs) (simp_all add: propagates_skip propagates_seq assms)

lemma propagates_required:
  assumes "\<And>x. propagates E (k x)"
  shows "propagates E (required field k)"
  by (cases field) (simp_all add: required_def propagates_raise_exc assms)

lemmas propagates_intros =
  propagates_skip propagates_raise_exc propagates_sleep propagates_await_call
  propagates_seq propagates_for_each propagates_required

lemma propagates_enable: "propagates E (enable_away_mode_by_calendar E s f t entity)"
  by (simp add: enable_away_mode_by_calendar_def propagates_intros)

lemma propagates_disable: "propagates E (disable_away_mode E entity)"
  by (simp add: disable_away_mode_def propagates_intros)

lemma propagates_set_variable_value:
  "propagates E (async_service_set_variable_value E hass call)"
  unfolding async_service_set_variable_value_def
  by (intro propagates_required) (simp add: propagates_intros split: option.split)

lemma propagates_set_device_value:
  "propagates E (async_service_set_device_value E hass call)"
  unfolding async_service_set_device_value_def
  by (intro propagates_required)
    (simp add: propagates_intros Let_def split: option.split sum.split)

lemma propagates_put_paramset:
  "propagates E (async_service_put_paramset E hass call)"
  unfolding async_service_put_paramset_def
  by (intro propagates_required)
    (simp add: propagates_intros Let_def split: option.split)

lemma propagates_set_install_mode:
  "propagates E (async_service_set_install_mode E hass call)"
  unfolding async_service_set_install_mode_def
  by (intro propagates_required)
    (simp add: propagates_intros Let_def split: option.split)

lemma propagates_enable_service:
  "propagates E (async_service_enable_away_mode_by_calendar E hass call)"
  unfolding async_service_enable_away_mode_by_calendar_def
  by (intro propagates_required)
    (auto intro!: propagates_for_each simp: propagates_enable propagates_skip split: option.split)

lemma propagates_disable_service:
  "propagates E (async_service_disable_away_mode E hass call)"
  unfolding async_service_disable_away_mode_def
  by (intro propagates_required)
    (auto intro!: propagates_for_each simp: propagates_disable propagates_skip split: option.split)

lemma propagates_service_function:
  "propagates E (async_call_hahm_service E hass call)"
  by (simp add: async_call_hahm_service_def call_hahm_service_def Let_def propagates_seq
      propagates_skip
      propagates_set_variable_value propagates_set_device_value propagates_put_paramset
      propagates_set_install_mode propagates_enable_service propagates_disable_service)

text \<open>
  C9. No handler catches an exception of the backend: in a run of the service function
  or of any of the six handlers, a backend call that raised is the last event of the run
  (no second attempt, nothing after it), and the run ends with the exception of that
  call.
\<close>

theorem backend_exception_propagates:
  assumes "p \<in> {async_call_hahm_service E hass call,
                async_service_set_variable_value E hass call,
                async_service_set_device_value E hass call,
                async_service_enable_away_mode_by_calendar E hass call,
                async_service_disable_away_mode E hass call,
                async_service_set_install_mode E hass call,
                async_service_put_paramset E hass call}"
    and "p tr = (tr', r)"
    and "length tr \<le> i" and "i < length tr'"
    and "tr' ! i = Call c" and "raises E (take i tr') c = Some e"
  shows "r = Some e \<and> Suc i = length tr'"
proof -
  from assms(1) have "propagates E p"
    by (auto simp: propagates_service_function propagates_set_variable_value
        propagates_set_device_value propagates_enable_service propagates_disable_service
        propagates_set_install_mode propagates_put_paramset)
  with assms(2-) show ?thesis
    unfolding propagates_def by blast
qed

theorem backend_exception_propagates_witness:
  "async_call_hahm_service failing_env sample_hass
     \<lparr>service = SERVICE_DISABLE_AWAY_MODE,
      data = no_data\<lparr>d_entity_id := Some (EntityMatch ''all'')\<rparr>\<rparr> [] =
     ([Call (DisableAwayMode thermostat)], Some (Raised ''ClientException'')) \<and>
   raises failing_env (take 0 [Call (DisableAwayMode thermostat)]) (DisableAwayMode thermostat) =
     Some (Raised ''ClientException'') \<and>
   Suc 0 = length [Call (DisableAwayMode thermostat)]"
proof -
  let ?call = "\<lparr>service = SERVICE_DISABLE_AWAY_MODE,
      data = no_data\<lparr>d_entity_id := Some (EntityMatch ''all'')\<rparr>\<rparr>"
  have run: "async_call_hahm_service failing_env sample_hass ?call [] =
      ([Call (DisableAwayMode thermostat)], Some (Raised ''ClientException''))"
    by (simp add: async_call_hahm_service_def call_hahm_service_def service_names seq_skip_left
        async_service_disable_away_mode_def required_def no_data_def
        get_entities_by_platform_def sample_hass_def sample_unit_def disable_away_mode_def
        isinstance_IPThermostat_def switch_def thermostat_def seq_def skip_def await_call_def
        failing_env_def sample_env_def)
  have raised: "raises failing_env (take 0 [Call (DisableAwayMode thermostat)])
      (DisableAwayMode thermostat) = Some (Raised ''ClientException'')"
    by (simp add: failing_env_def)
  from backend_exception_propagates
    [of "async_call_hahm_service failing_env sample_hass ?call" failing_env sample_hass ?call
        "[]" "[Call (DisableAwayMode thermostat)]" "Some (Raised ''ClientException'')" 0
        "DisableAwayMode thermostat" "Raised ''ClientException''"]
    run raised
  show ?thesis by simp
qed

end
